theory Spec2Isabelle
  imports Main
begin

section \<open>The stateful-set builder of the MinIO operator\<close>

text \<open>
  This theory embeds \<^verbatim>\<open>pkg/resources/statefulsets/minio-statefulset.go\<close>: the
  functions that compile a \<^verbatim>\<open>MinIOInstance\<close> into a Kubernetes
  \<^verbatim>\<open>StatefulSet\<close>. Go structs are records, pointers are options, a \<^verbatim>\<open>nil\<close>
  dereference and an index out of range are values of the type \<open>panic\<close>, and every
  function that can panic returns \<open>panic + 'a\<close>. Go maps are partial functions, with
  an option around them where the code tells a \<^verbatim>\<open>nil\<close> map from an empty one.
\<close>

subsection \<open>Run-time panics\<close>

datatype panic = IndexOutOfRange | NilDereference

subsection \<open>Go standard library\<close>

text \<open>\<^verbatim>\<open>strconv.Itoa\<close>: the decimal rendering of an integer.\<close>

definition digit :: "nat \<Rightarrow> char" where
  "digit d = ''0123456789'' ! d"

fun utoa :: "nat \<Rightarrow> string" where
  "utoa n = (if n < 10 then [digit n] else utoa (n div 10) @ [digit (n mod 10)])"

declare utoa.simps [simp del]

definition Itoa :: "int \<Rightarrow> string" where
  "Itoa i = (if i < 0 then CHR ''-'' # utoa (nat (- i)) else utoa (nat i))"

text \<open>
  \<^verbatim>\<open>net.JoinHostPort\<close>: a host with a colon is taken for an IPv6 literal and put in
  brackets.
\<close>

definition JoinHostPort :: "string \<Rightarrow> string \<Rightarrow> string" where
  "JoinHostPort host port =
     (if CHR '':'' \<in> set host then ''['' @ host @ '']:'' @ port
      else host @ '':'' @ port)"

text \<open>
  \<^verbatim>\<open>fmt.Sprintf\<close> on string operands. The format is read from left to right. The
  verb \<^verbatim>\<open>%s\<close> prints the next operand, or \<^verbatim>\<open>%!s(MISSING)\<close> when none is left;
  \<^verbatim>\<open>%%\<close> prints a percent sign; operands left over at the end are reported as
  \<^verbatim>\<open>%!(EXTRA string=..., ...)\<close>. Any other directive (flags, widths, other verbs, a
  lone percent sign at the end) is outside this fragment: there the rest of the output
  is what the first argument, standing for the remainder of the library, returns for
  the rest of the format and the operands not yet used.
\<close>

fun extras :: "string list \<Rightarrow> string" where
  "extras [] = []"
| "extras [a] = ''string='' @ a"
| "extras (a # b # bs) = ''string='' @ a @ '', '' @ extras (b # bs)"

fun Sprintf :: "(string \<Rightarrow> string list \<Rightarrow> string) \<Rightarrow> string \<Rightarrow> string list \<Rightarrow> string" where
  "Sprintf other [] [] = []"
| "Sprintf other [] (a # as) = ''%!(EXTRA '' @ extras (a # as) @ '')''"
| "Sprintf other (c # fs) as =
     (if c \<noteq> CHR ''%'' then c # Sprintf other fs as
      else (case fs of
              [] \<Rightarrow> other fs as
            | v # fs' \<Rightarrow>
                if v = CHR ''s'' then
                  (case as of
                     [] \<Rightarrow> ''%!s(MISSING)'' @ Sprintf other fs' []
                   | a # as' \<Rightarrow> a @ Sprintf other fs' as')
                else if v = CHR ''%'' then CHR ''%'' # Sprintf other fs' as
                else other fs as))"

subsection \<open>Kubernetes API types\<close>

text \<open>
  Only the fields that the package reads or writes are kept. A value that the package
  merely hands on (a probe, an affinity, resource requirements, a toleration, the body
  of a volume claim) is an uninterpreted token.
\<close>

datatype ResourceRequirements = ResourceRequirements_token string
datatype Probe = Probe_token string
datatype Affinity = Affinity_token string
datatype Toleration = Toleration_token string
datatype PersistentVolumeClaimSpec = PersistentVolumeClaimSpec_token string

record LocalObjectReference =
  lor_Name :: string

record ObjectFieldSelector =
  ofs_APIVersion :: string
  ofs_FieldPath :: string

record ResourceFieldSelector =
  rfs_ContainerName :: string
  rfs_Resource :: string
  rfs_Divisor :: string

record ConfigMapKeySelector =
  cmks_LocalObjectReference :: LocalObjectReference
  cmks_Key :: string
  cmks_Optional :: "bool option"

record SecretKeySelector =
  sks_LocalObjectReference :: LocalObjectReference
  sks_Key :: string
  sks_Optional :: "bool option"

record EnvVarSource =
  FieldRef :: "ObjectFieldSelector option"
  ResourceFieldRef :: "ResourceFieldSelector option"
  ConfigMapKeyRef :: "ConfigMapKeySelector option"
  SecretKeyRef :: "SecretKeySelector option"

record EnvVar =
  ev_Name :: string
  ev_Value :: string
  ev_ValueFrom :: "EnvVarSource option"

record OwnerReference =
  or_APIVersion :: string
  or_Kind :: string
  or_Name :: string
  or_UID :: string
  or_Controller :: "bool option"
  or_BlockOwnerDeletion :: "bool option"

record ObjectMeta =
  om_Name :: string
  om_Namespace :: string
  om_UID :: string
  om_Labels :: "(string \<rightharpoonup> string) option"
  om_Annotations :: "(string \<rightharpoonup> string) option"
  om_OwnerReferences :: "OwnerReference list"

record LabelSelector =
  MatchLabels :: "(string \<rightharpoonup> string) option"

record PodSecurityContext =
  RunAsUser :: "int option"
  RunAsGroup :: "int option"
  RunAsNonRoot :: "bool option"
  FSGroup :: "int option"

record PersistentVolumeClaim =
  pvc_ObjectMeta :: ObjectMeta
  pvc_Spec :: PersistentVolumeClaimSpec

record KeyToPath =
  ktp_Key :: string
  ktp_Path :: string

record SecretProjection =
  sp_LocalObjectReference :: LocalObjectReference
  sp_Items :: "KeyToPath list"

record VolumeProjection =
  vp_Secret :: "SecretProjection option"

record ProjectedVolumeSource =
  Sources :: "VolumeProjection list"

record EmptyDirVolumeSource =
  Medium :: string

record VolumeSource =
  EmptyDir :: "EmptyDirVolumeSource option"
  Projected :: "ProjectedVolumeSource option"

record Volume =
  vol_Name :: string
  vol_VolumeSource :: VolumeSource

record VolumeMount =
  vm_Name :: string
  vm_MountPath :: string

record ContainerPort =
  ContainerPort :: int

record Container =
  c_Name :: string
  c_Image :: string
  c_Ports :: "ContainerPort list"
  c_ImagePullPolicy :: string
  c_VolumeMounts :: "VolumeMount list"
  c_Args :: "string list"
  c_Env :: "EnvVar list"
  c_Resources :: ResourceRequirements
  c_LivenessProbe :: "Probe option"
  c_ReadinessProbe :: "Probe option"

record PodSpec =
  Containers :: "Container list"
  Volumes :: "Volume list"
  ImagePullSecrets :: "LocalObjectReference list"
  RestartPolicy :: string
  ps_Affinity :: "Affinity option"
  SchedulerName :: string
  ps_Tolerations :: "Toleration list"
  ps_SecurityContext :: "PodSecurityContext option"

record PodTemplateSpec =
  pt_ObjectMeta :: ObjectMeta
  pt_Spec :: PodSpec

record StatefulSetUpdateStrategy =
  us_Type :: string

record StatefulSetSpec =
  UpdateStrategy :: StatefulSetUpdateStrategy
  ss_PodManagementPolicy :: string
  ss_Selector :: "LabelSelector option"
  ServiceName :: string
  Replicas :: "int option"
  Template :: PodTemplateSpec
  VolumeClaimTemplates :: "PersistentVolumeClaim list"

record StatefulSet =
  ss_ObjectMeta :: ObjectMeta
  ss_Spec :: StatefulSetSpec

record GroupVersion =
  gv_Group :: string
  gv_Version :: string

record GroupVersionKind =
  gvk_Group :: string
  gvk_Version :: string
  gvk_Kind :: string

text \<open>\<^verbatim>\<open>GroupVersion.String\<close> and \<^verbatim>\<open>metav1.NewControllerRef\<close> of the API machinery.\<close>

definition GroupVersion_String :: "GroupVersion \<Rightarrow> string" where
  "GroupVersion_String gv =
     (if length (gv_Group gv) > 0 then gv_Group gv @ ''/'' @ gv_Version gv else gv_Version gv)"

definition gvk_GroupVersion :: "GroupVersionKind \<Rightarrow> GroupVersion" where
  "gvk_GroupVersion gvk = \<lparr>gv_Group = gvk_Group gvk, gv_Version = gvk_Version gvk\<rparr>"

definition NewControllerRef :: "string \<Rightarrow> string \<Rightarrow> GroupVersionKind \<Rightarrow> OwnerReference" where
  "NewControllerRef ownerName ownerUID gvk =
     \<lparr>or_APIVersion = GroupVersion_String (gvk_GroupVersion gvk),
      or_Kind = gvk_Kind gvk,
      or_Name = ownerName,
      or_UID = ownerUID,
      or_Controller = Some True,
      or_BlockOwnerDeletion = Some True\<rparr>"

subsection \<open>The custom resource\<close>

text \<open>
  The declaration of \<^verbatim>\<open>MinIOInstance\<close> lives in the API package of the operator.
  The record has the fields that the builder reads; a field of pointer type is an
  option. The builder compares \<^verbatim>\<open>VolumeClaimTemplate\<close> and \<^verbatim>\<open>SecurityContext\<close>
  with \<^verbatim>\<open>nil\<close> itself, and dereferences \<^verbatim>\<open>CredsSecret\<close>, \<^verbatim>\<open>Metadata\<close>,
  \<^verbatim>\<open>Selector\<close> and \<^verbatim>\<open>ExternalCertSecret\<close> behind an accessor.
\<close>

record Zone =
  zone_Name :: string
  zone_Servers :: int

record LocalCertificateReference =
  lcr_Name :: string
  lcr_Type :: string

record MinIOInstanceScheduler =
  sch_Name :: string

record MinIOInstanceSpec =
  Image :: string
  Zones :: "Zone list"
  VolumesPerServer :: int
  ImagePullSecret :: LocalObjectReference
  CredsSecret :: "LocalObjectReference option"
  PodManagementPolicy :: string
  Metadata :: "ObjectMeta option"
  Selector :: "LabelSelector option"
  Env :: "EnvVar list"
  VolumeClaimTemplate :: "PersistentVolumeClaim option"
  ExternalCertSecret :: "LocalCertificateReference option"
  Liveness :: "Probe option"
  Readiness :: "Probe option"
  Resources :: ResourceRequirements
  Affinity :: "Affinity option"
  Tolerations :: "Toleration list"
  SecurityContext :: "PodSecurityContext option"

record MinIOInstance =
  mi_Name :: string
  mi_Namespace :: string
  mi_UID :: string
  Scheduler :: MinIOInstanceScheduler
  Spec :: MinIOInstanceSpec

text \<open>
  The builder calls accessor methods of \<^verbatim>\<open>MinIOInstance\<close> and reads constants of
  the API package \<^verbatim>\<open>miniov1\<close>; neither is defined in the file embedded here. They
  are a parameter of the model: one record with a field for each method (a function
  of the instance) and for each constant. The theorems below are about an arbitrary
  value of this record; where one needs an accessor to agree with the instance, it
  says so in a hypothesis. The last field is not of the package: it is the remainder
  of \<^verbatim>\<open>fmt.Sprintf\<close> that \<open>Sprintf\<close> takes as its first argument.
\<close>

record miniov1 =
  HasCredsSecret :: "MinIOInstance \<Rightarrow> bool"
  HasKESEnabled :: "MinIOInstance \<Rightarrow> bool"
  HasMetadata :: "MinIOInstance \<Rightarrow> bool"
  HasSelector :: "MinIOInstance \<Rightarrow> bool"
  RequiresAutoCertSetup :: "MinIOInstance \<Rightarrow> bool"
  RequiresExternalCertSetup :: "MinIOInstance \<Rightarrow> bool"
  KESServiceHost :: "MinIOInstance \<Rightarrow> string"
  MinIOTLSSecretName :: "MinIOInstance \<Rightarrow> string"
  MinIOClientTLSSecretName :: "MinIOInstance \<Rightarrow> string"
  KESTLSSecretName :: "MinIOInstance \<Rightarrow> string"
  MinIOStatefulSetName :: "MinIOInstance \<Rightarrow> string"
  MinIOPodLabels :: "MinIOInstance \<Rightarrow> (string \<rightharpoonup> string)"
  MinIOHosts :: "MinIOInstance \<Rightarrow> string list"
  VolumePath :: "MinIOInstance \<Rightarrow> string"
  MinIOReplicas :: "MinIOInstance \<Rightarrow> int"
  KESPort :: int
  KESMinIOKey :: string
  MinIOVolumeName :: string
  MinIOVolumeMountPath :: string
  Scheme :: string
  MinIOServerName :: string
  MinIOPort :: int
  DefaultImagePullPolicy :: string
  DefaultUpdateStrategy :: string
  InstanceLabel :: string
  MinIOCRDResourceKind :: string
  SchemeGroupVersion :: GroupVersion
  fmt_other :: "string \<Rightarrow> string list \<Rightarrow> string"

subsection \<open>The environment of the server container\<close>

definition minioEnvironmentVars :: "miniov1 \<Rightarrow> MinIOInstance \<Rightarrow> panic + EnvVar list" where
  "minioEnvironmentVars api mi =
     (let envVars = foldl (\<lambda>envVars e. envVars @ [e]) [] (Env (Spec mi)) in
      case (if HasCredsSecret api mi then
              (case CredsSecret (Spec mi) of
                 None \<Rightarrow> Inl NilDereference
               | Some creds \<Rightarrow>
                   let secretName = lor_Name creds in
                   Inr (envVars @
                     [\<lparr>ev_Name = ''MINIO_ACCESS_KEY'', ev_Value = '''',
                       ev_ValueFrom = Some
                         \<lparr>FieldRef = None, ResourceFieldRef = None, ConfigMapKeyRef = None,
                          SecretKeyRef = Some
                            \<lparr>sks_LocalObjectReference = \<lparr>lor_Name = secretName\<rparr>,
                             sks_Key = ''accesskey'', sks_Optional = None\<rparr>\<rparr>\<rparr>,
                      \<lparr>ev_Name = ''MINIO_SECRET_KEY'', ev_Value = '''',
                       ev_ValueFrom = Some
                         \<lparr>FieldRef = None, ResourceFieldRef = None, ConfigMapKeyRef = None,
                          SecretKeyRef = Some
                            \<lparr>sks_LocalObjectReference = \<lparr>lor_Name = secretName\<rparr>,
                             sks_Key = ''secretkey'', sks_Optional = None\<rparr>\<rparr>\<rparr>]))
            else Inr envVars) of
        Inl p \<Rightarrow> Inl p
      | Inr envVars \<Rightarrow>
          Inr (if HasKESEnabled api mi then
                 envVars @
                   [\<lparr>ev_Name = ''MINIO_KMS_KES_ENDPOINT'',
                     ev_Value = ''https://'' @ JoinHostPort (KESServiceHost api mi) (Itoa (KESPort api)),
                     ev_ValueFrom = None\<rparr>,
                    \<lparr>ev_Name = ''MINIO_KMS_KES_CERT_FILE'',
                     ev_Value = ''/root/.minio/certs/client.crt'', ev_ValueFrom = None\<rparr>,
                    \<lparr>ev_Name = ''MINIO_KMS_KES_KEY_FILE'',
                     ev_Value = ''/root/.minio/certs/client.key'', ev_ValueFrom = None\<rparr>,
                    \<lparr>ev_Name = ''MINIO_KMS_KES_CA_PATH'',
                     ev_Value = ''/root/.minio/certs/CAs/server.crt'', ev_ValueFrom = None\<rparr>,
                    \<lparr>ev_Name = ''MINIO_KMS_KES_KEY_NAME'',
                     ev_Value = KESMinIOKey api, ev_ValueFrom = None\<rparr>]
               else envVars))"

subsection \<open>The metadata of the pod template\<close>

text \<open>
  The Go code copies the user's \<^verbatim>\<open>ObjectMeta\<close> by value and then writes into its
  label map, which the copy shares with the user's. Nothing reads the user's map
  afterwards, so the model returns the new map and leaves the instance as it is.
  Writing the entries of one map into another is map override.
\<close>

definition minioMetadata :: "miniov1 \<Rightarrow> MinIOInstance \<Rightarrow> panic + ObjectMeta" where
  "minioMetadata api mi =
     (let meta = \<lparr>om_Name = '''', om_Namespace = '''', om_UID = '''', om_Labels = None,
                  om_Annotations = None, om_OwnerReferences = []\<rparr> in
      case (if HasMetadata api mi then
              (case Metadata (Spec mi) of None \<Rightarrow> Inl NilDereference | Some m \<Rightarrow> Inr m)
            else Inr meta) of
        Inl p \<Rightarrow> Inl p
      | Inr meta \<Rightarrow>
          let meta = (if om_Labels meta = None then meta\<lparr>om_Labels := Some Map.empty\<rparr> else meta);
              meta = (if om_Annotations meta = None then meta\<lparr>om_Annotations := Some Map.empty\<rparr>
                      else meta);
              meta = meta\<lparr>om_Labels := Some (the (om_Labels meta) ++ MinIOPodLabels api mi)\<rparr>
          in if HasSelector api mi then
               (case Selector (Spec mi) of
                  None \<Rightarrow> Inl NilDereference
                | Some sel \<Rightarrow>
                    Inr (case MatchLabels sel of
                           None \<Rightarrow> meta
                         | Some ml \<Rightarrow> meta\<lparr>om_Labels := Some (the (om_Labels meta) ++ ml)\<rparr>))
             else Inr meta)"

subsection \<open>Volume mounts\<close>

function volumeMounts_loop :: "string \<Rightarrow> string \<Rightarrow> int \<Rightarrow> int \<Rightarrow> VolumeMount list \<Rightarrow> VolumeMount list" where
  "volumeMounts_loop path name n i mounts =
     (if i < n then
        volumeMounts_loop path name n (i + 1)
          (mounts @ [\<lparr>vm_Name = name @ Itoa i, vm_MountPath = path @ Itoa i\<rparr>])
      else mounts)"
  by pat_completeness auto
termination
  by (relation "measure (\<lambda>(path, name, n, i, mounts). nat (n - i))") auto

declare volumeMounts_loop.simps [simp del]

definition volumeMounts :: "miniov1 \<Rightarrow> MinIOInstance \<Rightarrow> VolumeMount list" where
  "volumeMounts api mi =
     (let mounts = [];
          name = (case VolumeClaimTemplate (Spec mi) of
                    None \<Rightarrow> MinIOVolumeName api
                  | Some t \<Rightarrow> om_Name (pvc_ObjectMeta t));
          mounts = (if VolumesPerServer (Spec mi) = 1 then
                      mounts @ [\<lparr>vm_Name = name @ Itoa 0, vm_MountPath = MinIOVolumeMountPath api\<rparr>]
                    else volumeMounts_loop (MinIOVolumeMountPath api) name
                           (VolumesPerServer (Spec mi)) 0 mounts)
      in if RequiresAutoCertSetup api mi \<or> RequiresExternalCertSetup api mi then
           mounts @ [\<lparr>vm_Name = MinIOTLSSecretName api mi, vm_MountPath = ''/root/.minio/certs''\<rparr>]
         else mounts)"

subsection \<open>The server container\<close>

text \<open>
  \<^verbatim>\<open>mi.Spec.Zones[0]\<close> is read with no check on the length of the list. The peer
  host is spliced into the format string of \<^verbatim>\<open>fmt.Sprintf\<close>; the scheme and the
  volume path are its operands.
\<close>

definition minioServerContainer :: "miniov1 \<Rightarrow> MinIOInstance \<Rightarrow> string \<Rightarrow> panic + Container" where
  "minioServerContainer api mi serviceName =
     (let args = [''server''] in
      case Zones (Spec mi) of
        [] \<Rightarrow> Inl IndexOutOfRange
      | z0 # _ \<Rightarrow>
          let args =
            (if zone_Servers z0 = 1 then args @ [MinIOVolumeMountPath api]
             else
               (let hosts = MinIOHosts api mi in
                foldl (\<lambda>args h. args @
                         [Sprintf (fmt_other api) (''%s://'' @ h @ ''%s'')
                            [Scheme api, VolumePath api mi]])
                  args hosts))
          in case minioEnvironmentVars api mi of
               Inl p \<Rightarrow> Inl p
             | Inr env \<Rightarrow>
                 Inr \<lparr>c_Name = MinIOServerName api,
                      c_Image = Image (Spec mi),
                      c_Ports = [\<lparr>ContainerPort = MinIOPort api\<rparr>],
                      c_ImagePullPolicy = DefaultImagePullPolicy api,
                      c_VolumeMounts = volumeMounts api mi,
                      c_Args = args,
                      c_Env = env,
                      c_Resources = Resources (Spec mi),
                      c_LivenessProbe = Liveness (Spec mi),
                      c_ReadinessProbe = Readiness (Spec mi)\<rparr>)"

subsection \<open>Tolerations, security context, ephemeral volumes\<close>

definition minioTolerations :: "MinIOInstance \<Rightarrow> Toleration list" where
  "minioTolerations mi =
     foldl (\<lambda>tolerations t. tolerations @ [t]) [] (Tolerations (Spec mi))"

definition minioSecurityContext :: "MinIOInstance \<Rightarrow> PodSecurityContext option" where
  "minioSecurityContext mi =
     (let securityContext =
            \<lparr>RunAsUser = None, RunAsGroup = None, RunAsNonRoot = None, FSGroup = None\<rparr>;
          securityContext = (case SecurityContext (Spec mi) of
                               None \<Rightarrow> securityContext
                             | Some sc \<Rightarrow> sc)
      in Some securityContext)"

definition getVolumesForContainer :: "MinIOInstance \<Rightarrow> Volume list" where
  "getVolumesForContainer mi =
     (let podVolumes = [] in
      if VolumeClaimTemplate (Spec mi) = None then
        foldl (\<lambda>podVolumes z. podVolumes @
                 [\<lparr>vol_Name = zone_Name z,
                   vol_VolumeSource =
                     \<lparr>EmptyDir = Some \<lparr>Medium = ''''\<rparr>, Projected = None\<rparr>\<rparr>])
          podVolumes (Zones (Spec mi))
      else podVolumes)"

subsection \<open>The stateful set\<close>

text \<open>
  The loop at the end of \<^verbatim>\<open>NewForMinIO\<close>: the copy \<^verbatim>\<open>pvClaim\<close> of the user's
  template is renamed and appended once for each index below the number of volumes.
\<close>

function claims_loop ::
  "PersistentVolumeClaim \<Rightarrow> string \<Rightarrow> int \<Rightarrow> int \<Rightarrow> PersistentVolumeClaim list
     \<Rightarrow> PersistentVolumeClaim list" where
  "claims_loop pvClaim name n i templates =
     (if i < n then
        (let pvClaim = pvClaim\<lparr>pvc_ObjectMeta := (pvc_ObjectMeta pvClaim)\<lparr>om_Name := name @ Itoa i\<rparr>\<rparr>
         in claims_loop pvClaim name n (i + 1) (templates @ [pvClaim]))
      else templates)"
  by pat_completeness auto
termination
  by (relation "measure (\<lambda>(pvClaim, name, n, i, templates). nat (n - i))") auto

declare claims_loop.simps [simp del]

definition NewForMinIO :: "miniov1 \<Rightarrow> MinIOInstance \<Rightarrow> string \<Rightarrow> panic + StatefulSet" where
  "NewForMinIO api mi serviceName =
     (let podVolumes = getVolumesForContainer mi;
          replicas = MinIOReplicas api mi;
          keyPaths = [\<lparr>ktp_Key = ''public.crt'', ktp_Path = ''public.crt''\<rparr>,
                      \<lparr>ktp_Key = ''private.key'', ktp_Path = ''private.key''\<rparr>,
                      \<lparr>ktp_Key = ''public.crt'', ktp_Path = ''CAs/public.crt''\<rparr>];
          MinIOCertKeyPaths = [\<lparr>ktp_Key = ''public.crt'', ktp_Path = ''client.crt''\<rparr>,
                               \<lparr>ktp_Key = ''private.key'', ktp_Path = ''client.key''\<rparr>];
          KESCertKeyPaths = [\<lparr>ktp_Key = ''public.crt'', ktp_Path = ''CAs/server.crt''\<rparr>]
      in
      case (if RequiresAutoCertSetup api mi then Inr (MinIOTLSSecretName api mi, keyPaths)
            else if RequiresExternalCertSetup api mi then
              (case ExternalCertSecret (Spec mi) of
                 None \<Rightarrow> Inl NilDereference
               | Some ext \<Rightarrow>
                   Inr (lcr_Name ext,
                        if lcr_Type ext = ''kubernetes.io/tls'' then
                          [\<lparr>ktp_Key = ''tls.crt'', ktp_Path = ''public.crt''\<rparr>,
                           \<lparr>ktp_Key = ''tls.key'', ktp_Path = ''private.key''\<rparr>,
                           \<lparr>ktp_Key = ''tls.crt'', ktp_Path = ''CAs/public.crt''\<rparr>]
                        else if lcr_Type ext = ''cert-manager.io/v1alpha2'' then
                          [\<lparr>ktp_Key = ''tls.crt'', ktp_Path = ''public.crt''\<rparr>,
                           \<lparr>ktp_Key = ''tls.key'', ktp_Path = ''private.key''\<rparr>,
                           \<lparr>ktp_Key = ''ca.crt'', ktp_Path = ''CAs/public.crt''\<rparr>]
                        else keyPaths))
            else Inr ('''', keyPaths)) of
        Inl p \<Rightarrow> Inl p
      | Inr (secretName, keyPaths) \<Rightarrow>
          let podVolumes =
            (if RequiresAutoCertSetup api mi \<or> RequiresExternalCertSetup api mi then
               (let sources =
                      [\<lparr>vp_Secret = Some
                          \<lparr>sp_LocalObjectReference = \<lparr>lor_Name = secretName\<rparr>,
                           sp_Items = keyPaths\<rparr>\<rparr>];
                    sources =
                      (if HasKESEnabled api mi then
                         sources @
                           [\<lparr>vp_Secret = Some
                               \<lparr>sp_LocalObjectReference =
                                  \<lparr>lor_Name = MinIOClientTLSSecretName api mi\<rparr>,
                                sp_Items = MinIOCertKeyPaths\<rparr>\<rparr>,
                            \<lparr>vp_Secret = Some
                               \<lparr>sp_LocalObjectReference = \<lparr>lor_Name = KESTLSSecretName api mi\<rparr>,
                                sp_Items = KESCertKeyPaths\<rparr>\<rparr>]
                       else sources)
                in podVolumes @
                     [\<lparr>vol_Name = MinIOTLSSecretName api mi,
                       vol_VolumeSource =
                         \<lparr>EmptyDir = None, Projected = Some \<lparr>Sources = sources\<rparr>\<rparr>\<rparr>])
             else podVolumes)
          in
          case minioServerContainer api mi serviceName of
            Inl p \<Rightarrow> Inl p
          | Inr container \<Rightarrow>
              let containers = [container] in
              case minioMetadata api mi of
                Inl p \<Rightarrow> Inl p
              | Inr meta \<Rightarrow>
                  let ss =
                    \<lparr>ss_ObjectMeta =
                       \<lparr>om_Name = mi_Name mi,
                        om_Namespace = mi_Namespace mi,
                        om_UID = '''',
                        om_Labels = None,
                        om_Annotations = None,
                        om_OwnerReferences =
                          [NewControllerRef (mi_Name mi) (mi_UID mi)
                             \<lparr>gvk_Group = gv_Group (SchemeGroupVersion api),
                              gvk_Version = gv_Version (SchemeGroupVersion api),
                              gvk_Kind = MinIOCRDResourceKind api\<rparr>]\<rparr>,
                     ss_Spec =
                       \<lparr>UpdateStrategy = \<lparr>us_Type = DefaultUpdateStrategy api\<rparr>,
                        ss_PodManagementPolicy = PodManagementPolicy (Spec mi),
                        ss_Selector = Some
                          \<lparr>MatchLabels = Some [InstanceLabel api \<mapsto> MinIOStatefulSetName api mi]\<rparr>,
                        ServiceName = serviceName,
                        Replicas = Some replicas,
                        Template =
                          \<lparr>pt_ObjectMeta = meta,
                           pt_Spec =
                             \<lparr>Containers = containers,
                              Volumes = podVolumes,
                              ImagePullSecrets = [ImagePullSecret (Spec mi)],
                              RestartPolicy = ''Always'',
                              ps_Affinity = Affinity (Spec mi),
                              SchedulerName = sch_Name (Scheduler mi),
                              ps_Tolerations = minioTolerations mi,
                              ps_SecurityContext = minioSecurityContext mi\<rparr>\<rparr>,
                        VolumeClaimTemplates = []\<rparr>\<rparr>
                  in
                  Inr (case VolumeClaimTemplate (Spec mi) of
                         None \<Rightarrow> ss
                       | Some t \<Rightarrow>
                           (let pvClaim = t;
                                name = om_Name (pvc_ObjectMeta pvClaim)
                            in ss\<lparr>ss_Spec := (ss_Spec ss)
                                 \<lparr>VolumeClaimTemplates :=
                                    claims_loop pvClaim name (VolumesPerServer (Spec mi)) 0
                                      (VolumeClaimTemplates (ss_Spec ss))\<rparr>\<rparr>)))"

subsection \<open>Guards\<close>

text \<open>
  The dereferences of \<^verbatim>\<open>CredsSecret\<close>, \<^verbatim>\<open>Metadata\<close>, \<^verbatim>\<open>Selector\<close> and
  \<^verbatim>\<open>ExternalCertSecret\<close> each stand behind an accessor of the instance. An instance
  is \<open>guarded\<close> when an accessor that opens the way to a dereference implies that
  the pointer is set, and \<open>wellformed\<close> when it has a zone as well.
\<close>

definition guarded :: "miniov1 \<Rightarrow> MinIOInstance \<Rightarrow> bool" where
  "guarded api mi \<longleftrightarrow>
     (HasCredsSecret api mi \<longrightarrow> CredsSecret (Spec mi) \<noteq> None) \<and>
     (HasMetadata api mi \<longrightarrow> Metadata (Spec mi) \<noteq> None) \<and>
     (HasSelector api mi \<longrightarrow> Selector (Spec mi) \<noteq> None) \<and>
     (RequiresExternalCertSetup api mi \<and> \<not> RequiresAutoCertSetup api mi \<longrightarrow>
        ExternalCertSecret (Spec mi) \<noteq> None)"

definition wellformed :: "miniov1 \<Rightarrow> MinIOInstance \<Rightarrow> bool" where
  "wellformed api mi \<longleftrightarrow> Zones (Spec mi) \<noteq> [] \<and> guarded api mi"

subsection \<open>Projections of the stateful set\<close>

definition podSpec :: "StatefulSet \<Rightarrow> PodSpec" where
  "podSpec ss = pt_Spec (Template (ss_Spec ss))"

definition templateLabels :: "StatefulSet \<Rightarrow> (string \<rightharpoonup> string) option" where
  "templateLabels ss = om_Labels (pt_ObjectMeta (Template (ss_Spec ss)))"

definition selectorLabels :: "StatefulSet \<Rightarrow> (string \<rightharpoonup> string) option" where
  "selectorLabels ss =
     (case ss_Selector (ss_Spec ss) of None \<Rightarrow> None | Some sel \<Rightarrow> MatchLabels sel)"

subsection \<open>Sample inputs\<close>

text \<open>
  A value of the parameter record and an instance, on which the theorems below are
  exercised. The accessors of the sample test the presence of the sub-record they
  guard; self-signed certificates and the key encryption service are switched off
  and are switched on by record update where an example needs them.
\<close>

definition sample_api :: miniov1 where
  "sample_api =
     \<lparr>HasCredsSecret = (\<lambda>mi. CredsSecret (Spec mi) \<noteq> None),
      HasKESEnabled = (\<lambda>mi. False),
      HasMetadata = (\<lambda>mi. Metadata (Spec mi) \<noteq> None),
      HasSelector = (\<lambda>mi. Selector (Spec mi) \<noteq> None),
      RequiresAutoCertSetup = (\<lambda>mi. False),
      RequiresExternalCertSetup = (\<lambda>mi. ExternalCertSecret (Spec mi) \<noteq> None),
      KESServiceHost = (\<lambda>mi. mi_Name mi @ ''-kes-hl-svc.'' @ mi_Namespace mi @ ''.svc.cluster.local''),
      MinIOTLSSecretName = (\<lambda>mi. mi_Name mi @ ''-tls''),
      MinIOClientTLSSecretName = (\<lambda>mi. mi_Name mi @ ''-client-tls''),
      KESTLSSecretName = (\<lambda>mi. mi_Name mi @ ''-kes-tls''),
      MinIOStatefulSetName = (\<lambda>mi. mi_Name mi),
      MinIOPodLabels = (\<lambda>mi. [''v1.min.io/instance'' \<mapsto> mi_Name mi]),
      MinIOHosts = (\<lambda>mi. map (\<lambda>z. mi_Name mi @ ''-'' @ zone_Name z @ ''.'' @ mi_Namespace mi @ ''.svc'')
                            (Zones (Spec mi))),
      VolumePath = (\<lambda>mi. ''/export''),
      MinIOReplicas = (\<lambda>mi. sum_list (map zone_Servers (Zones (Spec mi)))),
      KESPort = 7373,
      KESMinIOKey = ''my-minio-key'',
      MinIOVolumeName = ''export'',
      MinIOVolumeMountPath = ''/export'',
      Scheme = ''http'',
      MinIOServerName = ''minio'',
      MinIOPort = 9000,
      DefaultImagePullPolicy = ''Always'',
      DefaultUpdateStrategy = ''RollingUpdate'',
      InstanceLabel = ''v1.min.io/instance'',
      MinIOCRDResourceKind = ''MinIOInstance'',
      SchemeGroupVersion = \<lparr>gv_Group = ''operator.min.io'', gv_Version = ''v1''\<rparr>,
      fmt_other = (\<lambda>fs as. [])\<rparr>"

definition sample_meta :: ObjectMeta where
  "sample_meta =
     \<lparr>om_Name = ''data'', om_Namespace = '''', om_UID = '''', om_Labels = None,
      om_Annotations = None, om_OwnerReferences = []\<rparr>"

definition sample_mi :: MinIOInstance where
  "sample_mi =
     \<lparr>mi_Name = ''minio'',
      mi_Namespace = ''default'',
      mi_UID = ''c0ffee'',
      Scheduler = \<lparr>sch_Name = ''''\<rparr>,
      Spec =
        \<lparr>Image = ''minio/minio:latest'',
         Zones = [\<lparr>zone_Name = ''zone-0'', zone_Servers = 4\<rparr>],
         VolumesPerServer = 2,
         ImagePullSecret = \<lparr>lor_Name = ''''\<rparr>,
         CredsSecret = Some \<lparr>lor_Name = ''minio-creds''\<rparr>,
         PodManagementPolicy = ''Parallel'',
         Metadata = None,
         Selector = None,
         Env = [\<lparr>ev_Name = ''MINIO_BROWSER'', ev_Value = ''on'', ev_ValueFrom = None\<rparr>],
         VolumeClaimTemplate = Some
           \<lparr>pvc_ObjectMeta = sample_meta, pvc_Spec = PersistentVolumeClaimSpec_token ''10Gi''\<rparr>,
         ExternalCertSecret = None,
         Liveness = Some (Probe_token ''live''),
         Readiness = None,
         Resources = ResourceRequirements_token ''2Gi'',
         Affinity = None,
         Tolerations = [],
         SecurityContext = None\<rparr>\<rparr>"

text \<open>Variants of the sample: the parameter record with the key encryption service
  switched on, and with another port and pull policy.\<close>

definition kes_api :: miniov1 where
  "kes_api = sample_api\<lparr>HasKESEnabled := (\<lambda>mi. True)\<rparr>"

definition other_api :: miniov1 where
  "other_api = sample_api\<lparr>MinIOPort := 9001, DefaultImagePullPolicy := ''IfNotPresent''\<rparr>"

text \<open>An instance whose selector binds the instance label to a name of the user's.\<close>

definition relabelled_mi :: MinIOInstance where
  "relabelled_mi =
     sample_mi\<lparr>Spec := (Spec sample_mi)
       \<lparr>Selector := Some \<lparr>MatchLabels = Some [''v1.min.io/instance'' \<mapsto> ''other'']\<rparr>\<rparr>\<rparr>"

text \<open>An instance whose metadata binds the instance label, and whose selector binds
  another label.\<close>

definition labelled_mi :: MinIOInstance where
  "labelled_mi =
     sample_mi\<lparr>Spec := (Spec sample_mi)
       \<lparr>Metadata := Some
          (sample_meta\<lparr>om_Name := '''',
             om_Labels := Some [''v1.min.io/instance'' \<mapsto> ''mine'', ''team'' \<mapsto> ''storage'']\<rparr>),
        Selector := Some \<lparr>MatchLabels = Some [''app'' \<mapsto> ''minio'']\<rparr>\<rparr>\<rparr>"

text \<open>An instance with no volume claim template, two zones and one volume per server.\<close>

definition ephemeral_mi :: MinIOInstance where
  "ephemeral_mi =
     sample_mi\<lparr>Spec := (Spec sample_mi)
       \<lparr>Zones := [\<lparr>zone_Name = ''zone-0'', zone_Servers = 4\<rparr>,
                  \<lparr>zone_Name = ''zone-1'', zone_Servers = 4\<rparr>],
        VolumesPerServer := 1,
        VolumeClaimTemplate := None\<rparr>\<rparr>"

text \<open>An instance with one server, and one with no zone.\<close>

definition standalone_mi :: MinIOInstance where
  "standalone_mi =
     sample_mi\<lparr>Spec := (Spec sample_mi)
       \<lparr>Zones := [\<lparr>zone_Name = ''zone-0'', zone_Servers = 1\<rparr>]\<rparr>\<rparr>"

definition zoneless_mi :: MinIOInstance where
  "zoneless_mi = sample_mi\<lparr>Spec := (Spec sample_mi)\<lparr>Zones := []\<rparr>\<rparr>"

text \<open>An instance with an external certificate secret of a type that the builder does
  not know.\<close>

definition external_mi :: MinIOInstance where
  "external_mi =
     sample_mi\<lparr>Spec := (Spec sample_mi)
       \<lparr>ExternalCertSecret := Some \<lparr>lcr_Name = ''my-certs'', lcr_Type = ''Opaque''\<rparr>\<rparr>\<rparr>"

section \<open>Verification\<close>

subsection \<open>Loops and library functions in closed form\<close>

lemma foldl_snoc: "foldl (\<lambda>acc x. acc @ [f x]) acc xs = acc @ map f xs"
  by (induction xs arbitrary: acc) simp_all

lemma foldl_snoc_id: "foldl (\<lambda>acc x. acc @ [x]) acc xs = acc @ xs"
  using foldl_snoc [of "\<lambda>x. x" acc xs] by simp

lemma Sprintf_plain:
  "CHR ''%'' \<notin> set h \<Longrightarrow> Sprintf other (h @ fs) as = h @ Sprintf other fs as"
  by (induction h) auto

lemma Sprintf_url:
  "Sprintf other (''%s://'' @ h @ ''%s'') [a, b] = a @ ''://'' @ Sprintf other (h @ ''%s'') [b]"
  by simp

lemma Sprintf_tail: "Sprintf other ''%s'' [b] = b"
  by simp

lemma Sprintf_url_plain:
  "CHR ''%'' \<notin> set h \<Longrightarrow> Sprintf other (''%s://'' @ h @ ''%s'') [a, b] = a @ ''://'' @ h @ b"
proof -
  assume "CHR ''%'' \<notin> set h"
  then have "Sprintf other (h @ ''%s'') [b] = h @ Sprintf other ''%s'' [b]"
    by (rule Sprintf_plain)
  then have "Sprintf other (h @ ''%s'') [b] = h @ b"
    by (simp only: Sprintf_tail)
  then show ?thesis
    by (simp only: Sprintf_url)
qed

lemma minioEnvironmentVars_eq:
  assumes "HasCredsSecret api mi \<Longrightarrow> CredsSecret (Spec mi) = Some creds"
  shows "minioEnvironmentVars api mi =
     Inr (Env (Spec mi) @
          (if HasCredsSecret api mi then
             [\<lparr>ev_Name = ''MINIO_ACCESS_KEY'', ev_Value = '''',
               ev_ValueFrom = Some
                 \<lparr>FieldRef = None, ResourceFieldRef = None, ConfigMapKeyRef = None,
                  SecretKeyRef = Some
                    \<lparr>sks_LocalObjectReference = \<lparr>lor_Name = lor_Name creds\<rparr>,
                     sks_Key = ''accesskey'', sks_Optional = None\<rparr>\<rparr>\<rparr>,
              \<lparr>ev_Name = ''MINIO_SECRET_KEY'', ev_Value = '''',
               ev_ValueFrom = Some
                 \<lparr>FieldRef = None, ResourceFieldRef = None, ConfigMapKeyRef = None,
                  SecretKeyRef = Some
                    \<lparr>sks_LocalObjectReference = \<lparr>lor_Name = lor_Name creds\<rparr>,
                     sks_Key = ''secretkey'', sks_Optional = None\<rparr>\<rparr>\<rparr>]
           else []) @
          (if HasKESEnabled api mi then
             [\<lparr>ev_Name = ''MINIO_KMS_KES_ENDPOINT'',
               ev_Value = ''https://'' @ JoinHostPort (KESServiceHost api mi) (Itoa (KESPort api)),
               ev_ValueFrom = None\<rparr>,
              \<lparr>ev_Name = ''MINIO_KMS_KES_CERT_FILE'',
               ev_Value = ''/root/.minio/certs/client.crt'', ev_ValueFrom = None\<rparr>,
              \<lparr>ev_Name = ''MINIO_KMS_KES_KEY_FILE'',
               ev_Value = ''/root/.minio/certs/client.key'', ev_ValueFrom = None\<rparr>,
              \<lparr>ev_Name = ''MINIO_KMS_KES_CA_PATH'',
               ev_Value = ''/root/.minio/certs/CAs/server.crt'', ev_ValueFrom = None\<rparr>,
              \<lparr>ev_Name = ''MINIO_KMS_KES_KEY_NAME'',
               ev_Value = KESMinIOKey api, ev_ValueFrom = None\<rparr>]
           else []))"
  using assms by (simp add: minioEnvironmentVars_def foldl_snoc_id Let_def)

lemma minioEnvironmentVars_Inr:
  "minioEnvironmentVars api mi = Inr env \<Longrightarrow> HasCredsSecret api mi \<Longrightarrow> CredsSecret (Spec mi) \<noteq> None"
  by (auto simp: minioEnvironmentVars_def Let_def split: option.splits)

lemma minioServerContainer_Inr:
  assumes "minioServerContainer api mi sn = Inr c"
  shows "Zones (Spec mi) \<noteq> []"
    and "minioEnvironmentVars api mi = Inr (c_Env c)"
    and "c_VolumeMounts c = volumeMounts api mi"
    and "c_Image c = Image (Spec mi)"
    and "c_Resources c = Resources (Spec mi)"
    and "c_LivenessProbe c = Liveness (Spec mi)"
    and "c_ReadinessProbe c = Readiness (Spec mi)"
    and "c_Ports c = [\<lparr>ContainerPort = MinIOPort api\<rparr>]"
    and "c_ImagePullPolicy c = DefaultImagePullPolicy api"
    and "c_Name c = MinIOServerName api"
    and "c_Args c =
      (if zone_Servers (hd (Zones (Spec mi))) = 1 then [''server'', MinIOVolumeMountPath api]
       else ''server'' # map (\<lambda>h. Sprintf (fmt_other api) (''%s://'' @ h @ ''%s'')
                                    [Scheme api, VolumePath api mi]) (MinIOHosts api mi))"
  using assms
  by (auto simp: minioServerContainer_def Let_def foldl_snoc split: list.splits sum.splits)

lemma upt_step: "0 \<le> i \<Longrightarrow> i < n \<Longrightarrow> [nat i..<nat n] = nat i # [nat (i + 1)..<nat n]"
proof -
  assume a: "0 \<le> i" "i < n"
  then have "nat i < nat n" by simp
  then have "[nat i..<nat n] = nat i # [Suc (nat i)..<nat n]" by (rule upt_conv_Cons)
  moreover have "Suc (nat i) = nat (i + 1)" using a by simp
  ultimately show ?thesis by simp
qed

lemma volumeMounts_loop_eq:
  "0 \<le> i \<Longrightarrow> volumeMounts_loop path name n i mounts =
     mounts @ map (\<lambda>j. \<lparr>vm_Name = name @ Itoa (int j), vm_MountPath = path @ Itoa (int j)\<rparr>)
                [nat i..<nat n]"
proof (induction path name n i mounts rule: volumeMounts_loop.induct)
  case (1 path name n i mounts)
  show ?case
  proof (cases "i < n")
    case True
    have "volumeMounts_loop path name n i mounts =
        volumeMounts_loop path name n (i + 1)
          (mounts @ [\<lparr>vm_Name = name @ Itoa i, vm_MountPath = path @ Itoa i\<rparr>])"
      using True by (subst volumeMounts_loop.simps) simp
    also have "\<dots> = (mounts @ [\<lparr>vm_Name = name @ Itoa i, vm_MountPath = path @ Itoa i\<rparr>]) @
        map (\<lambda>j. \<lparr>vm_Name = name @ Itoa (int j), vm_MountPath = path @ Itoa (int j)\<rparr>)
                [nat (i + 1)..<nat n]"
      using "1.IH" [OF True] "1.prems" by simp
    finally show ?thesis
      using "1.prems" by (simp add: upt_step [OF "1.prems" True])
  next
    case False
    then show ?thesis by (subst volumeMounts_loop.simps) simp
  qed
qed

lemma claims_loop_eq:
  "0 \<le> i \<Longrightarrow> claims_loop pvClaim name n i templates =
     templates @ map (\<lambda>j. pvClaim\<lparr>pvc_ObjectMeta := (pvc_ObjectMeta pvClaim)\<lparr>om_Name := name @ Itoa (int j)\<rparr>\<rparr>)
                [nat i..<nat n]"
proof (induction pvClaim name n i templates rule: claims_loop.induct)
  case (1 pvClaim name n i templates)
  show ?case
  proof (cases "i < n")
    case True
    define pv' where "pv' = pvClaim\<lparr>pvc_ObjectMeta := (pvc_ObjectMeta pvClaim)\<lparr>om_Name := name @ Itoa i\<rparr>\<rparr>"
    have "claims_loop pvClaim name n i templates =
        claims_loop pv' name n (i + 1) (templates @ [pv'])"
      using True unfolding pv'_def by (subst claims_loop.simps) (simp add: Let_def)
    also have "\<dots> = (templates @ [pv']) @
        map (\<lambda>j. pv'\<lparr>pvc_ObjectMeta := (pvc_ObjectMeta pv')\<lparr>om_Name := name @ Itoa (int j)\<rparr>\<rparr>)
                [nat (i + 1)..<nat n]"
      using "1.IH" [OF True pv'_def] "1.prems" by simp
    also have "\<dots> = (templates @ [pv']) @
        map (\<lambda>j. pvClaim\<lparr>pvc_ObjectMeta := (pvc_ObjectMeta pvClaim)\<lparr>om_Name := name @ Itoa (int j)\<rparr>\<rparr>)
                [nat (i + 1)..<nat n]"
      by (simp add: pv'_def)
    finally show ?thesis
      using "1.prems" by (simp add: upt_step [OF "1.prems" True] pv'_def)
  next
    case False
    then show ?thesis by (subst claims_loop.simps) simp
  qed
qed

lemma volumeMounts_eq:
  "volumeMounts api mi =
     map (\<lambda>j. \<lparr>vm_Name = (case VolumeClaimTemplate (Spec mi) of
                             None \<Rightarrow> MinIOVolumeName api
                           | Some t \<Rightarrow> om_Name (pvc_ObjectMeta t)) @ Itoa (int j),
                vm_MountPath = (if VolumesPerServer (Spec mi) = 1 then MinIOVolumeMountPath api
                                else MinIOVolumeMountPath api @ Itoa (int j))\<rparr>)
         [0..<nat (VolumesPerServer (Spec mi))] @
     (if RequiresAutoCertSetup api mi \<or> RequiresExternalCertSetup api mi then
        [\<lparr>vm_Name = MinIOTLSSecretName api mi, vm_MountPath = ''/root/.minio/certs''\<rparr>]
      else [])"
  by (simp add: volumeMounts_def Let_def volumeMounts_loop_eq)

lemma getVolumesForContainer_eq:
  "getVolumesForContainer mi =
     (if VolumeClaimTemplate (Spec mi) = None then
        map (\<lambda>z. \<lparr>vol_Name = zone_Name z,
                   vol_VolumeSource = \<lparr>EmptyDir = Some \<lparr>Medium = ''''\<rparr>, Projected = None\<rparr>\<rparr>)
            (Zones (Spec mi))
      else [])"
  by (simp add: getVolumesForContainer_def Let_def foldl_snoc)

lemma NewForMinIO_containers:
  "NewForMinIO api mi sn = Inr ss \<Longrightarrow>
     \<exists>c. minioServerContainer api mi sn = Inr c \<and> Containers (podSpec ss) = [c]"
  by (cases "minioServerContainer api mi sn"; cases "minioMetadata api mi";
      cases "ExternalCertSecret (Spec mi)"; cases "VolumeClaimTemplate (Spec mi)")
     (auto simp: NewForMinIO_def Let_def podSpec_def split: if_splits)

lemma NewForMinIO_meta:
  "NewForMinIO api mi sn = Inr ss \<Longrightarrow>
     minioMetadata api mi = Inr (pt_ObjectMeta (Template (ss_Spec ss)))"
  by (cases "minioServerContainer api mi sn"; cases "minioMetadata api mi";
      cases "ExternalCertSecret (Spec mi)"; cases "VolumeClaimTemplate (Spec mi)")
     (auto simp: NewForMinIO_def Let_def podSpec_def split: if_splits)

lemma NewForMinIO_selector:
  "NewForMinIO api mi sn = Inr ss \<Longrightarrow>
     selectorLabels ss = Some [InstanceLabel api \<mapsto> MinIOStatefulSetName api mi]"
  by (cases "minioServerContainer api mi sn"; cases "minioMetadata api mi";
      cases "ExternalCertSecret (Spec mi)"; cases "VolumeClaimTemplate (Spec mi)")
     (auto simp: NewForMinIO_def Let_def selectorLabels_def split: if_splits)

lemma NewForMinIO_volumes_plain:
  "NewForMinIO api mi sn = Inr ss \<Longrightarrow> \<not> RequiresAutoCertSetup api mi \<Longrightarrow>
     \<not> RequiresExternalCertSetup api mi \<Longrightarrow> Volumes (podSpec ss) = getVolumesForContainer mi"
  by (cases "minioServerContainer api mi sn"; cases "minioMetadata api mi";
      cases "ExternalCertSecret (Spec mi)"; cases "VolumeClaimTemplate (Spec mi)")
     (auto simp: NewForMinIO_def Let_def podSpec_def split: if_splits)

lemma NewForMinIO_volumes_auto:
  "NewForMinIO api mi sn = Inr ss \<Longrightarrow> RequiresAutoCertSetup api mi \<Longrightarrow>
     Volumes (podSpec ss) = getVolumesForContainer mi @
       [\<lparr>vol_Name = MinIOTLSSecretName api mi,
         vol_VolumeSource =
           \<lparr>EmptyDir = None,
            Projected = Some
              \<lparr>Sources =
                 \<lparr>vp_Secret = Some
                    \<lparr>sp_LocalObjectReference = \<lparr>lor_Name = MinIOTLSSecretName api mi\<rparr>,
                     sp_Items = [\<lparr>ktp_Key = ''public.crt'', ktp_Path = ''public.crt''\<rparr>,
                                 \<lparr>ktp_Key = ''private.key'', ktp_Path = ''private.key''\<rparr>,
                                 \<lparr>ktp_Key = ''public.crt'', ktp_Path = ''CAs/public.crt''\<rparr>]\<rparr>\<rparr> #
                 (if HasKESEnabled api mi then
                    [\<lparr>vp_Secret = Some
                        \<lparr>sp_LocalObjectReference = \<lparr>lor_Name = MinIOClientTLSSecretName api mi\<rparr>,
                         sp_Items = [\<lparr>ktp_Key = ''public.crt'', ktp_Path = ''client.crt''\<rparr>,
                                     \<lparr>ktp_Key = ''private.key'', ktp_Path = ''client.key''\<rparr>]\<rparr>\<rparr>,
                     \<lparr>vp_Secret = Some
                        \<lparr>sp_LocalObjectReference = \<lparr>lor_Name = KESTLSSecretName api mi\<rparr>,
                         sp_Items = [\<lparr>ktp_Key = ''public.crt'', ktp_Path = ''CAs/server.crt''\<rparr>]\<rparr>\<rparr>]
                  else [])\<rparr>\<rparr>\<rparr>]"
  by (cases "minioServerContainer api mi sn"; cases "minioMetadata api mi";
      cases "ExternalCertSecret (Spec mi)"; cases "VolumeClaimTemplate (Spec mi)")
     (auto simp: NewForMinIO_def Let_def podSpec_def split: if_splits)

lemma minioEnvironmentVars_returns:
  "(\<exists>env. minioEnvironmentVars api mi = Inr env) \<longleftrightarrow>
     (HasCredsSecret api mi \<longrightarrow> CredsSecret (Spec mi) \<noteq> None)"
  by (auto simp: minioEnvironmentVars_def Let_def split: option.splits)

lemma minioMetadata_returns:
  "(\<exists>meta. minioMetadata api mi = Inr meta) \<longleftrightarrow>
     (HasMetadata api mi \<longrightarrow> Metadata (Spec mi) \<noteq> None) \<and>
     (HasSelector api mi \<longrightarrow> Selector (Spec mi) \<noteq> None)"
  by (auto simp: minioMetadata_def Let_def split: option.splits)

lemma minioServerContainer_returns:
  "(\<exists>c. minioServerContainer api mi sn = Inr c) \<longleftrightarrow>
     Zones (Spec mi) \<noteq> [] \<and> (\<exists>env. minioEnvironmentVars api mi = Inr env)"
  by (cases "minioEnvironmentVars api mi")
     (auto simp: minioServerContainer_def Let_def split: list.splits)

lemma minioServerContainer_no_zone:
  "Zones (Spec mi) = [] \<Longrightarrow> minioServerContainer api mi sn = Inl IndexOutOfRange"
  by (simp add: minioServerContainer_def)

lemma NewForMinIO_returns_parts:
  "(\<exists>ss. NewForMinIO api mi sn = Inr ss) \<longleftrightarrow>
     (RequiresExternalCertSetup api mi \<and> \<not> RequiresAutoCertSetup api mi \<longrightarrow>
        ExternalCertSecret (Spec mi) \<noteq> None) \<and>
     (\<exists>c. minioServerContainer api mi sn = Inr c) \<and>
     (\<exists>meta. minioMetadata api mi = Inr meta)"
  by (cases "minioServerContainer api mi sn"; cases "minioMetadata api mi";
      cases "ExternalCertSecret (Spec mi)")
     (simp_all add: NewForMinIO_def Let_def)

lemma NewForMinIO_returns:
  "(\<exists>ss. NewForMinIO api mi sn = Inr ss) \<longleftrightarrow> wellformed api mi"
  unfolding NewForMinIO_returns_parts minioServerContainer_returns minioMetadata_returns
    minioEnvironmentVars_returns wellformed_def guarded_def
  by blast

lemma NewForMinIO_no_zone:
  "guarded api mi \<Longrightarrow> Zones (Spec mi) = [] \<Longrightarrow> NewForMinIO api mi sn = Inl IndexOutOfRange"
  by (cases "ExternalCertSecret (Spec mi)")
     (simp_all add: NewForMinIO_def Let_def guarded_def minioServerContainer_no_zone)

lemma NewForMinIO_volumes_external:
  "NewForMinIO api mi sn = Inr ss \<Longrightarrow> \<not> RequiresAutoCertSetup api mi \<Longrightarrow>
   RequiresExternalCertSetup api mi \<Longrightarrow>
     \<exists>ext. ExternalCertSecret (Spec mi) = Some ext \<and>
     Volumes (podSpec ss) = getVolumesForContainer mi @
       [\<lparr>vol_Name = MinIOTLSSecretName api mi,
         vol_VolumeSource =
           \<lparr>EmptyDir = None,
            Projected = Some
              \<lparr>Sources =
                 \<lparr>vp_Secret = Some
                    \<lparr>sp_LocalObjectReference = \<lparr>lor_Name = lcr_Name ext\<rparr>,
                     sp_Items =
                       (if lcr_Type ext = ''kubernetes.io/tls'' then
                          [\<lparr>ktp_Key = ''tls.crt'', ktp_Path = ''public.crt''\<rparr>,
                           \<lparr>ktp_Key = ''tls.key'', ktp_Path = ''private.key''\<rparr>,
                           \<lparr>ktp_Key = ''tls.crt'', ktp_Path = ''CAs/public.crt''\<rparr>]
                        else if lcr_Type ext = ''cert-manager.io/v1alpha2'' then
                          [\<lparr>ktp_Key = ''tls.crt'', ktp_Path = ''public.crt''\<rparr>,
                           \<lparr>ktp_Key = ''tls.key'', ktp_Path = ''private.key''\<rparr>,
                           \<lparr>ktp_Key = ''ca.crt'', ktp_Path = ''CAs/public.crt''\<rparr>]
                        else
                          [\<lparr>ktp_Key = ''public.crt'', ktp_Path = ''public.crt''\<rparr>,
                           \<lparr>ktp_Key = ''private.key'', ktp_Path = ''private.key''\<rparr>,
                           \<lparr>ktp_Key = ''public.crt'', ktp_Path = ''CAs/public.crt''\<rparr>])\<rparr>\<rparr> #
                 (if HasKESEnabled api mi then
                    [\<lparr>vp_Secret = Some
                        \<lparr>sp_LocalObjectReference = \<lparr>lor_Name = MinIOClientTLSSecretName api mi\<rparr>,
                         sp_Items = [\<lparr>ktp_Key = ''public.crt'', ktp_Path = ''client.crt''\<rparr>,
                                     \<lparr>ktp_Key = ''private.key'', ktp_Path = ''client.key''\<rparr>]\<rparr>\<rparr>,
                     \<lparr>vp_Secret = Some
                        \<lparr>sp_LocalObjectReference = \<lparr>lor_Name = KESTLSSecretName api mi\<rparr>,
                         sp_Items = [\<lparr>ktp_Key = ''public.crt'', ktp_Path = ''CAs/server.crt''\<rparr>]\<rparr>\<rparr>]
                  else [])\<rparr>\<rparr>\<rparr>]"
  by (cases "minioServerContainer api mi sn"; cases "minioMetadata api mi";
      cases "ExternalCertSecret (Spec mi)"; cases "VolumeClaimTemplate (Spec mi)")
     (auto simp: NewForMinIO_def Let_def podSpec_def)

lemma NewForMinIO_claims:
  "NewForMinIO api mi sn = Inr ss \<Longrightarrow>
     VolumeClaimTemplates (ss_Spec ss) =
       (case VolumeClaimTemplate (Spec mi) of
          None \<Rightarrow> []
        | Some t \<Rightarrow>
            map (\<lambda>j. t\<lparr>pvc_ObjectMeta := (pvc_ObjectMeta t)
                         \<lparr>om_Name := om_Name (pvc_ObjectMeta t) @ Itoa (int j)\<rparr>\<rparr>)
                [0..<nat (VolumesPerServer (Spec mi))])"
  by (cases "minioServerContainer api mi sn"; cases "minioMetadata api mi";
      cases "ExternalCertSecret (Spec mi)"; cases "VolumeClaimTemplate (Spec mi)")
     (auto simp: NewForMinIO_def Let_def claims_loop_eq split: if_splits)

lemma minioMetadata_labels:
  assumes "minioMetadata api mi = Inr meta"
  shows "\<exists>base extra. om_Labels meta = Some (base ++ MinIOPodLabels api mi ++ extra) \<and>
           (extra = Map.empty \<or>
            HasSelector api mi \<and>
              (\<exists>sel. Selector (Spec mi) = Some sel \<and> MatchLabels sel = Some extra))"
proof -
  define user where "user = (if HasMetadata api mi then Metadata (Spec mi) else None)"
  define base where
    "base = (case user of None \<Rightarrow> Map.empty
             | Some m \<Rightarrow> (case om_Labels m of None \<Rightarrow> Map.empty | Some l \<Rightarrow> l))"
  show ?thesis
  proof (cases "HasSelector api mi")
    case False
    with assms have "om_Labels meta = Some (base ++ MinIOPodLabels api mi ++ Map.empty)"
      by (auto simp: minioMetadata_def Let_def base_def user_def split: option.splits if_splits)
    then show ?thesis by blast
  next
    case True
    with assms obtain sel where sel: "Selector (Spec mi) = Some sel"
      by (auto simp: minioMetadata_def Let_def split: option.splits if_splits)
    show ?thesis
    proof (cases "MatchLabels sel")
      case None
      with assms True sel have "om_Labels meta = Some (base ++ MinIOPodLabels api mi ++ Map.empty)"
        by (auto simp: minioMetadata_def Let_def base_def user_def split: option.splits if_splits)
      then show ?thesis by blast
    next
      case (Some ml)
      with assms True sel have "om_Labels meta = Some (base ++ MinIOPodLabels api mi ++ ml)"
        by (auto simp: minioMetadata_def Let_def base_def user_def split: option.splits if_splits)
      with True sel Some show ?thesis by blast
    qed
  qed
qed

lemma minioServerContainer_exists:
  assumes "Zones (Spec mi) \<noteq> []"
    and "HasCredsSecret api mi \<longrightarrow> CredsSecret (Spec mi) \<noteq> None"
  shows "\<exists>c. minioServerContainer api mi sn = Inr c"
  using assms by (simp add: minioServerContainer_returns minioEnvironmentVars_returns)

lemma NewForMinIO_exists:
  assumes "wellformed api mi"
  obtains ss c where "NewForMinIO api mi sn = Inr ss" "minioServerContainer api mi sn = Inr c"
    "Containers (podSpec ss) = [c]"
proof -
  from assms obtain ss where ss: "NewForMinIO api mi sn = Inr ss"
    using NewForMinIO_returns [of api mi sn] by blast
  from NewForMinIO_containers [OF ss] ss that show thesis by blast
qed

lemma NewForMinIO_emptydirs:
  assumes "NewForMinIO api mi sn = Inr ss"
  shows "filter (\<lambda>v. EmptyDir (vol_VolumeSource v) \<noteq> None) (Volumes (podSpec ss)) =
           getVolumesForContainer mi"
proof -
  have keep: "filter (\<lambda>v. EmptyDir (vol_VolumeSource v) \<noteq> None) (getVolumesForContainer mi) =
      getVolumesForContainer mi"
    by (simp add: getVolumesForContainer_eq)
  consider (auto) "RequiresAutoCertSetup api mi"
    | (ext) "\<not> RequiresAutoCertSetup api mi" "RequiresExternalCertSetup api mi"
    | (plain) "\<not> RequiresAutoCertSetup api mi" "\<not> RequiresExternalCertSetup api mi"
    by blast
  then show ?thesis
  proof cases
    case auto
    from NewForMinIO_volumes_auto [OF assms auto] keep show ?thesis by simp
  next
    case ext
    from NewForMinIO_volumes_external [OF assms ext] keep show ?thesis by auto
  next
    case plain
    from NewForMinIO_volumes_plain [OF assms plain] keep show ?thesis by simp
  qed
qed

lemma minioEnvironmentVars_names:
  assumes "minioEnvironmentVars api mi = Inr env"
  shows "take (length (Env (Spec mi))) env = Env (Spec mi) \<and>
         map ev_Name (drop (length (Env (Spec mi))) env) =
           (if HasCredsSecret api mi then [''MINIO_ACCESS_KEY'', ''MINIO_SECRET_KEY''] else []) @
           (if HasKESEnabled api mi then
              [''MINIO_KMS_KES_ENDPOINT'', ''MINIO_KMS_KES_CERT_FILE'',
               ''MINIO_KMS_KES_KEY_FILE'', ''MINIO_KMS_KES_CA_PATH'',
               ''MINIO_KMS_KES_KEY_NAME'']
            else [])"
  using assms
  by (auto simp: minioEnvironmentVars_def Let_def foldl_snoc_id split: option.splits if_splits)

lemma upt_0_2: "[0..<2] = [0, Suc 0]"
  by (simp add: numeral_2_eq_2)

subsection \<open>The claims\<close>

text \<open>
  Claim C1, amended. For a well-formed instance that requires neither self-signed nor
  external certificates: the volumes of the pod are the ephemeral volumes only, one
  empty directory named after each zone when there is no volume claim template and
  none otherwise, so no projected certificate volume is added; the mounts of the
  container are the storage mounts only, named by the base name and the index, so no
  certificate mount is added; and the environment is the user's entries followed by
  the two credential entries exactly when there is a credentials secret and by the
  five entries of the key encryption service exactly when that service is enabled.
  The certificate mode has no part in the environment.
\<close>

theorem NewForMinIO_without_certificates:
  assumes "wellformed api mi"
    and "\<not> RequiresAutoCertSetup api mi" and "\<not> RequiresExternalCertSetup api mi"
  shows "\<exists>ss c. NewForMinIO api mi sn = Inr ss \<and> Containers (podSpec ss) = [c] \<and>
           Volumes (podSpec ss) =
             (if VolumeClaimTemplate (Spec mi) = None then
                map (\<lambda>z. \<lparr>vol_Name = zone_Name z,
                           vol_VolumeSource =
                             \<lparr>EmptyDir = Some \<lparr>Medium = ''''\<rparr>, Projected = None\<rparr>\<rparr>)
                    (Zones (Spec mi))
              else []) \<and>
           c_VolumeMounts c =
             map (\<lambda>j. \<lparr>vm_Name = (case VolumeClaimTemplate (Spec mi) of
                                     None \<Rightarrow> MinIOVolumeName api
                                   | Some t \<Rightarrow> om_Name (pvc_ObjectMeta t)) @ Itoa (int j),
                        vm_MountPath = (if VolumesPerServer (Spec mi) = 1
                                        then MinIOVolumeMountPath api
                                        else MinIOVolumeMountPath api @ Itoa (int j))\<rparr>)
                 [0..<nat (VolumesPerServer (Spec mi))] \<and>
           take (length (Env (Spec mi))) (c_Env c) = Env (Spec mi) \<and>
           map ev_Name (drop (length (Env (Spec mi))) (c_Env c)) =
             (if HasCredsSecret api mi then [''MINIO_ACCESS_KEY'', ''MINIO_SECRET_KEY''] else []) @
             (if HasKESEnabled api mi then
                [''MINIO_KMS_KES_ENDPOINT'', ''MINIO_KMS_KES_CERT_FILE'',
                 ''MINIO_KMS_KES_KEY_FILE'', ''MINIO_KMS_KES_CA_PATH'',
                 ''MINIO_KMS_KES_KEY_NAME'']
              else [])"
proof -
  from assms(1) obtain ss c where ss: "NewForMinIO api mi sn = Inr ss"
    and c: "minioServerContainer api mi sn = Inr c" and cs: "Containers (podSpec ss) = [c]"
    by (rule NewForMinIO_exists)
  have vols: "Volumes (podSpec ss) =
      (if VolumeClaimTemplate (Spec mi) = None then
         map (\<lambda>z. \<lparr>vol_Name = zone_Name z,
                    vol_VolumeSource = \<lparr>EmptyDir = Some \<lparr>Medium = ''''\<rparr>, Projected = None\<rparr>\<rparr>)
             (Zones (Spec mi))
       else [])"
    using NewForMinIO_volumes_plain [OF ss assms(2,3)] by (simp only: getVolumesForContainer_eq)
  have mounts: "c_VolumeMounts c =
      map (\<lambda>j. \<lparr>vm_Name = (case VolumeClaimTemplate (Spec mi) of
                              None \<Rightarrow> MinIOVolumeName api
                            | Some t \<Rightarrow> om_Name (pvc_ObjectMeta t)) @ Itoa (int j),
                 vm_MountPath = (if VolumesPerServer (Spec mi) = 1
                                 then MinIOVolumeMountPath api
                                 else MinIOVolumeMountPath api @ Itoa (int j))\<rparr>)
          [0..<nat (VolumesPerServer (Spec mi))]"
    using assms(2,3) by (simp add: minioServerContainer_Inr(3) [OF c] volumeMounts_eq)
  note env = minioEnvironmentVars_names [OF minioServerContainer_Inr(2) [OF c]]
  from ss cs vols mounts env show ?thesis by blast
qed

theorem NewForMinIO_without_certificates_witness:
  "wellformed sample_api ephemeral_mi \<and>
   \<not> RequiresAutoCertSetup sample_api ephemeral_mi \<and>
   \<not> RequiresExternalCertSetup sample_api ephemeral_mi \<and>
   \<not> HasKESEnabled sample_api ephemeral_mi \<and>
   map_sum id
     (\<lambda>ss. (Volumes (podSpec ss),
            map (\<lambda>c. (c_VolumeMounts c, map ev_Name (c_Env c))) (Containers (podSpec ss))))
     (NewForMinIO sample_api ephemeral_mi ''minio-hl-svc'') =
   Inr ([\<lparr>vol_Name = ''zone-0'',
          vol_VolumeSource = \<lparr>EmptyDir = Some \<lparr>Medium = ''''\<rparr>, Projected = None\<rparr>\<rparr>,
         \<lparr>vol_Name = ''zone-1'',
          vol_VolumeSource = \<lparr>EmptyDir = Some \<lparr>Medium = ''''\<rparr>, Projected = None\<rparr>\<rparr>],
        [([\<lparr>vm_Name = ''export0'', vm_MountPath = ''/export''\<rparr>],
          [''MINIO_BROWSER'', ''MINIO_ACCESS_KEY'', ''MINIO_SECRET_KEY''])])"
  using NewForMinIO_without_certificates [of sample_api ephemeral_mi "''minio-hl-svc''"]
  by (simp add: wellformed_def guarded_def ephemeral_mi_def sample_api_def sample_mi_def
      NewForMinIO_def minioServerContainer_def minioEnvironmentVars_def minioMetadata_def
      getVolumesForContainer_def volumeMounts_def podSpec_def Let_def Itoa_def utoa.simps digit_def)

text \<open>
  The claim as it was stated excludes the entries of the key encryption service from
  the environment whenever no certificates are required, whether or not the service
  is enabled. With the service enabled and no certificates required the container
  carries all five of them.
\<close>

theorem NewForMinIO_without_certificates_counterexample:
  "\<not> RequiresAutoCertSetup kes_api sample_mi \<and>
   \<not> RequiresExternalCertSetup kes_api sample_mi \<and>
   HasKESEnabled kes_api sample_mi \<and>
   map_sum id (\<lambda>ss. map (\<lambda>c. map ev_Name (c_Env c)) (Containers (podSpec ss)))
     (NewForMinIO kes_api sample_mi ''minio-hl-svc'') =
   Inr [[''MINIO_BROWSER'', ''MINIO_ACCESS_KEY'', ''MINIO_SECRET_KEY'',
         ''MINIO_KMS_KES_ENDPOINT'', ''MINIO_KMS_KES_CERT_FILE'', ''MINIO_KMS_KES_KEY_FILE'',
         ''MINIO_KMS_KES_CA_PATH'', ''MINIO_KMS_KES_KEY_NAME'']]"
  by (simp add: kes_api_def sample_api_def sample_mi_def sample_meta_def
      NewForMinIO_def minioServerContainer_def minioEnvironmentVars_def minioMetadata_def
      getVolumesForContainer_def podSpec_def Let_def)

text \<open>
  Claim C2, amended. For a well-formed instance whose pod labels, as the accessor
  \<^verbatim>\<open>MinIOPodLabels\<close> gives them, bind the instance label to the name of the
  stateful set, and whose selector, if it has one, does not bind the instance label to
  another value: the selector of the stateful set is the instance label bound to the
  name of the stateful set, every label of the selector is a label of the pod
  template with the same value, and the instance label of the template carries that
  name, also when the user's metadata binds the same key. The match labels of the
  user's selector are written last and win over both.
\<close>

theorem NewForMinIO_selector_matches:
  assumes "wellformed api mi"
    and "MinIOPodLabels api mi (InstanceLabel api) = Some (MinIOStatefulSetName api mi)"
    and "HasSelector api mi \<longrightarrow>
           (\<forall>sel ml v. Selector (Spec mi) = Some sel \<and> MatchLabels sel = Some ml \<and>
              ml (InstanceLabel api) = Some v \<longrightarrow> v = MinIOStatefulSetName api mi)"
  shows "\<exists>ss S L. NewForMinIO api mi sn = Inr ss \<and>
           selectorLabels ss = Some S \<and> templateLabels ss = Some L \<and>
           S = [InstanceLabel api \<mapsto> MinIOStatefulSetName api mi] \<and>
           S \<subseteq>\<^sub>m L \<and>
           L (InstanceLabel api) = Some (MinIOStatefulSetName api mi)"
proof -
  from assms(1) obtain ss where ss: "NewForMinIO api mi sn = Inr ss"
    using NewForMinIO_returns [of api mi sn] by blast
  let ?k = "InstanceLabel api" and ?n = "MinIOStatefulSetName api mi"
  from minioMetadata_labels [OF NewForMinIO_meta [OF ss]]
  obtain base extra where L: "templateLabels ss = Some (base ++ MinIOPodLabels api mi ++ extra)"
    and extra: "extra = Map.empty \<or>
      HasSelector api mi \<and> (\<exists>sel. Selector (Spec mi) = Some sel \<and> MatchLabels sel = Some extra)"
    unfolding templateLabels_def by blast
  have at_k: "(base ++ MinIOPodLabels api mi ++ extra) ?k = Some ?n"
  proof (cases "extra ?k")
    case None
    with assms(2) show ?thesis by (simp add: map_add_def)
  next
    case (Some v)
    with extra assms(3) have "v = ?n" by auto
    with Some show ?thesis by (simp add: map_add_def)
  qed
  then have le: "[?k \<mapsto> ?n] \<subseteq>\<^sub>m base ++ MinIOPodLabels api mi ++ extra"
    by (simp add: map_le_def)
  have S: "selectorLabels ss = Some [?k \<mapsto> ?n]"
    by (rule NewForMinIO_selector [OF ss])
  have "NewForMinIO api mi sn = Inr ss \<and>
      selectorLabels ss = Some [?k \<mapsto> ?n] \<and>
      templateLabels ss = Some (base ++ MinIOPodLabels api mi ++ extra) \<and>
      [?k \<mapsto> ?n] = [?k \<mapsto> ?n] \<and>
      [?k \<mapsto> ?n] \<subseteq>\<^sub>m base ++ MinIOPodLabels api mi ++ extra \<and>
      (base ++ MinIOPodLabels api mi ++ extra) ?k = Some ?n"
    using ss S L le at_k by (intro conjI refl)
  then show ?thesis
    by (intro exI)
qed

theorem NewForMinIO_selector_matches_witness:
  "wellformed sample_api labelled_mi \<and>
   MinIOPodLabels sample_api labelled_mi (InstanceLabel sample_api) =
     Some (MinIOStatefulSetName sample_api labelled_mi) \<and>
   map_option (\<lambda>m. m ''v1.min.io/instance'') (Option.bind (Metadata (Spec labelled_mi)) om_Labels) =
     Some (Some ''mine'') \<and>
   map_option (\<lambda>m. m ''v1.min.io/instance'') (Option.bind (Selector (Spec labelled_mi)) MatchLabels) =
     Some None \<and>
   map_sum id
     (\<lambda>ss. (map_option (\<lambda>m. m ''v1.min.io/instance'') (selectorLabels ss),
            map_option (\<lambda>m. (m ''v1.min.io/instance'', m ''team'', m ''app'')) (templateLabels ss)))
     (NewForMinIO sample_api labelled_mi ''minio-hl-svc'') =
   Inr (Some (Some ''minio''), Some (Some ''minio'', Some ''storage'', Some ''minio''))"
  using NewForMinIO_selector_matches [of sample_api labelled_mi "''minio-hl-svc''"]
  by (simp add: wellformed_def guarded_def labelled_mi_def sample_api_def sample_mi_def
      sample_meta_def NewForMinIO_def minioServerContainer_def minioEnvironmentVars_def
      minioMetadata_def selectorLabels_def templateLabels_def Let_def)

text \<open>
  The claim as it was stated keeps the builder's value of the instance label also when
  the user's selector binds that key. There the template carries the user's value and
  the selector of the stateful set no longer matches it.
\<close>

theorem NewForMinIO_selector_matches_counterexample:
  "map_option (\<lambda>m. m ''v1.min.io/instance'') (Option.bind (Selector (Spec relabelled_mi)) MatchLabels) =
     Some (Some ''other'') \<and>
   map_sum id
     (\<lambda>ss. (map_option (\<lambda>m. m ''v1.min.io/instance'') (selectorLabels ss),
            map_option (\<lambda>m. m ''v1.min.io/instance'') (templateLabels ss)))
     (NewForMinIO sample_api relabelled_mi ''minio-hl-svc'') =
   Inr (Some (Some ''minio''), Some (Some ''other''))"
  by (simp add: relabelled_mi_def sample_api_def sample_mi_def
      sample_meta_def NewForMinIO_def minioServerContainer_def minioEnvironmentVars_def
      minioMetadata_def selectorLabels_def templateLabels_def Let_def)

text \<open>
  Claim C3, amended. For a well-formed instance the container has as many mounts as
  the instance has volumes for each server (none when that number is negative),
  with or without a volume claim template, and one more exactly when certificates
  are required, self-signed or external. The ephemeral volumes of the pod are one for
  each zone when there is no template and none otherwise; their number is not tied to
  the number of mounts.
\<close>

theorem NewForMinIO_mount_count:
  assumes "wellformed api mi"
  shows "\<exists>ss c. NewForMinIO api mi sn = Inr ss \<and> Containers (podSpec ss) = [c] \<and>
           length (c_VolumeMounts c) =
             nat (VolumesPerServer (Spec mi)) +
             (if RequiresAutoCertSetup api mi \<or> RequiresExternalCertSetup api mi then 1 else 0) \<and>
           length (filter (\<lambda>v. EmptyDir (vol_VolumeSource v) \<noteq> None) (Volumes (podSpec ss))) =
             (if VolumeClaimTemplate (Spec mi) = None then length (Zones (Spec mi)) else 0)"
proof -
  from assms obtain ss c where ss: "NewForMinIO api mi sn = Inr ss"
    and c: "minioServerContainer api mi sn = Inr c" and cs: "Containers (podSpec ss) = [c]"
    by (rule NewForMinIO_exists)
  have "length (c_VolumeMounts c) =
      nat (VolumesPerServer (Spec mi)) +
      (if RequiresAutoCertSetup api mi \<or> RequiresExternalCertSetup api mi then 1 else 0)"
    by (simp add: minioServerContainer_Inr(3) [OF c] volumeMounts_eq)
  moreover have "length (filter (\<lambda>v. EmptyDir (vol_VolumeSource v) \<noteq> None) (Volumes (podSpec ss))) =
      (if VolumeClaimTemplate (Spec mi) = None then length (Zones (Spec mi)) else 0)"
    unfolding NewForMinIO_emptydirs [OF ss] by (simp add: getVolumesForContainer_eq)
  ultimately show ?thesis using ss cs by blast
qed

theorem NewForMinIO_mount_count_witness:
  "wellformed sample_api ephemeral_mi \<and>
   map_sum id
     (\<lambda>ss. (map (\<lambda>c. length (c_VolumeMounts c)) (Containers (podSpec ss)),
            length (filter (\<lambda>v. EmptyDir (vol_VolumeSource v) \<noteq> None) (Volumes (podSpec ss)))))
     (NewForMinIO sample_api ephemeral_mi ''minio-hl-svc'') = Inr ([1], 2) \<and>
   VolumesPerServer (Spec ephemeral_mi) = 1 \<and> length (Zones (Spec ephemeral_mi)) = 2"
  using NewForMinIO_mount_count [of sample_api ephemeral_mi "''minio-hl-svc''"]
  by (simp add: wellformed_def guarded_def ephemeral_mi_def sample_api_def sample_mi_def
      NewForMinIO_def minioServerContainer_def minioEnvironmentVars_def minioMetadata_def
      getVolumesForContainer_def volumeMounts_def podSpec_def Let_def)

text \<open>
  The claim as it was stated equates, without a template, the number of mounts with
  the number of ephemeral volumes. With two zones and one volume for each server the
  container has one mount and the pod two ephemeral volumes.
\<close>

theorem NewForMinIO_mount_count_counterexample:
  "VolumeClaimTemplate (Spec ephemeral_mi) = None \<and>
   \<not> RequiresAutoCertSetup sample_api ephemeral_mi \<and>
   \<not> RequiresExternalCertSetup sample_api ephemeral_mi \<and>
   map_sum id
     (\<lambda>ss. (map (\<lambda>c. map vm_Name (c_VolumeMounts c)) (Containers (podSpec ss)),
            map vol_Name (filter (\<lambda>v. EmptyDir (vol_VolumeSource v) \<noteq> None)
                            (Volumes (podSpec ss)))))
     (NewForMinIO sample_api ephemeral_mi ''minio-hl-svc'') =
     Inr ([[''export0'']], [''zone-0'', ''zone-1''])"
  by (simp add: ephemeral_mi_def sample_api_def sample_mi_def
      NewForMinIO_def minioServerContainer_def minioEnvironmentVars_def minioMetadata_def
      getVolumesForContainer_def volumeMounts_def podSpec_def Let_def Itoa_def utoa.simps digit_def)

text \<open>
  Claim C4, amended. The container is built whenever the instance has a zone and the
  accessor for the credentials secret guards its pointer. Its image, its resources, its
  liveness probe and its readiness probe are the fields of the instance, unchanged. Its
  one port and its pull policy are not read from the instance: they are the constants
  \<^verbatim>\<open>MinIOPort\<close> and \<^verbatim>\<open>DefaultImagePullPolicy\<close> of the API package.
\<close>

theorem minioServerContainer_copies:
  assumes "Zones (Spec mi) \<noteq> []"
    and "HasCredsSecret api mi \<longrightarrow> CredsSecret (Spec mi) \<noteq> None"
  shows "\<exists>c. minioServerContainer api mi sn = Inr c \<and>
           c_Image c = Image (Spec mi) \<and>
           c_Resources c = Resources (Spec mi) \<and>
           c_LivenessProbe c = Liveness (Spec mi) \<and>
           c_ReadinessProbe c = Readiness (Spec mi) \<and>
           c_Ports c = [\<lparr>ContainerPort = MinIOPort api\<rparr>] \<and>
           c_ImagePullPolicy c = DefaultImagePullPolicy api"
proof -
  from assms obtain c where c: "minioServerContainer api mi sn = Inr c"
    using minioServerContainer_exists by blast
  from minioServerContainer_Inr(4-9) [OF c] c show ?thesis by blast
qed

theorem minioServerContainer_copies_witness:
  "Zones (Spec sample_mi) \<noteq> [] \<and>
   (HasCredsSecret sample_api sample_mi \<and> CredsSecret (Spec sample_mi) \<noteq> None) \<and>
   map_sum id (\<lambda>c. (c_Image c, c_Resources c, c_LivenessProbe c, c_ReadinessProbe c,
                     c_Ports c, c_ImagePullPolicy c))
     (minioServerContainer sample_api sample_mi ''minio-hl-svc'') =
   Inr (''minio/minio:latest'', ResourceRequirements_token ''2Gi'', Some (Probe_token ''live''),
        None, [\<lparr>ContainerPort = 9000\<rparr>], ''Always'')"
  using minioServerContainer_copies [of sample_mi sample_api "''minio-hl-svc''"]
  by (simp add: sample_api_def sample_mi_def minioServerContainer_def minioEnvironmentVars_def
      Let_def)

text \<open>
  The claim as it was stated has the port and the pull policy copied from the
  instance. The same instance, built under two values of the package constants, gets
  two different ports and two different pull policies, so neither is a function of
  the instance.
\<close>

theorem minioServerContainer_copies_counterexample:
  "map_sum id (\<lambda>c. (c_Ports c, c_ImagePullPolicy c))
     (minioServerContainer sample_api sample_mi ''minio-hl-svc'') =
     Inr ([\<lparr>ContainerPort = 9000\<rparr>], ''Always'') \<and>
   map_sum id (\<lambda>c. (c_Ports c, c_ImagePullPolicy c))
     (minioServerContainer other_api sample_mi ''minio-hl-svc'') =
     Inr ([\<lparr>ContainerPort = 9001\<rparr>], ''IfNotPresent'')"
  by (simp add: other_api_def sample_api_def sample_mi_def minioServerContainer_def
      minioEnvironmentVars_def Let_def)

text \<open>
  Claim C5. For a well-formed instance that requires certificates, self-signed or
  external, the pod volumes end with one projected volume named after the TLS secret.
  Its first source is the primary certificate secret (the TLS secret when self-signed
  certificates are required, the external secret otherwise), projected to the files
  \<^verbatim>\<open>public.crt\<close>, \<^verbatim>\<open>private.key\<close> and \<^verbatim>\<open>CAs/public.crt\<close>. When the key
  encryption service is enabled two more sources follow, the client key pair and then
  the certificate of the service, three sources in all; when it is disabled the
  primary source is the only one.
\<close>

theorem NewForMinIO_tls_sources:
  assumes "wellformed api mi"
    and "RequiresAutoCertSetup api mi \<or> RequiresExternalCertSetup api mi"
  shows "\<exists>ss name items. NewForMinIO api mi sn = Inr ss \<and>
           Volumes (podSpec ss) = getVolumesForContainer mi @
             [\<lparr>vol_Name = MinIOTLSSecretName api mi,
               vol_VolumeSource =
                 \<lparr>EmptyDir = None,
                  Projected = Some
                    \<lparr>Sources =
                       \<lparr>vp_Secret = Some
                          \<lparr>sp_LocalObjectReference = \<lparr>lor_Name = name\<rparr>, sp_Items = items\<rparr>\<rparr> #
                       (if HasKESEnabled api mi then
                          [\<lparr>vp_Secret = Some
                              \<lparr>sp_LocalObjectReference =
                                 \<lparr>lor_Name = MinIOClientTLSSecretName api mi\<rparr>,
                               sp_Items =
                                 [\<lparr>ktp_Key = ''public.crt'', ktp_Path = ''client.crt''\<rparr>,
                                  \<lparr>ktp_Key = ''private.key'', ktp_Path = ''client.key''\<rparr>]\<rparr>\<rparr>,
                           \<lparr>vp_Secret = Some
                              \<lparr>sp_LocalObjectReference = \<lparr>lor_Name = KESTLSSecretName api mi\<rparr>,
                               sp_Items =
                                 [\<lparr>ktp_Key = ''public.crt'', ktp_Path = ''CAs/server.crt''\<rparr>]\<rparr>\<rparr>]
                        else [])\<rparr>\<rparr>\<rparr>] \<and>
           (RequiresAutoCertSetup api mi \<and> name = MinIOTLSSecretName api mi \<or>
            \<not> RequiresAutoCertSetup api mi \<and>
              (\<exists>ext. ExternalCertSecret (Spec mi) = Some ext \<and> name = lcr_Name ext)) \<and>
           map ktp_Path items = [''public.crt'', ''private.key'', ''CAs/public.crt'']"
proof -
  from assms(1) obtain ss where ss: "NewForMinIO api mi sn = Inr ss"
    using NewForMinIO_returns [of api mi sn] by blast
  show ?thesis
  proof (cases "RequiresAutoCertSetup api mi")
    case True
    from NewForMinIO_volumes_auto [OF ss True] ss True show ?thesis
      by (intro exI [of _ ss] exI [of _ "MinIOTLSSecretName api mi"]
            exI [of _ "[\<lparr>ktp_Key = ''public.crt'', ktp_Path = ''public.crt''\<rparr>,
                        \<lparr>ktp_Key = ''private.key'', ktp_Path = ''private.key''\<rparr>,
                        \<lparr>ktp_Key = ''public.crt'', ktp_Path = ''CAs/public.crt''\<rparr>]"]) simp
  next
    case False
    with assms(2) have ext: "RequiresExternalCertSetup api mi" by simp
    from NewForMinIO_volumes_external [OF ss False ext] obtain e items
      where e: "ExternalCertSecret (Spec mi) = Some e"
        and items: "items =
          (if lcr_Type e = ''kubernetes.io/tls'' then
             [\<lparr>ktp_Key = ''tls.crt'', ktp_Path = ''public.crt''\<rparr>,
              \<lparr>ktp_Key = ''tls.key'', ktp_Path = ''private.key''\<rparr>,
              \<lparr>ktp_Key = ''tls.crt'', ktp_Path = ''CAs/public.crt''\<rparr>]
           else if lcr_Type e = ''cert-manager.io/v1alpha2'' then
             [\<lparr>ktp_Key = ''tls.crt'', ktp_Path = ''public.crt''\<rparr>,
              \<lparr>ktp_Key = ''tls.key'', ktp_Path = ''private.key''\<rparr>,
              \<lparr>ktp_Key = ''ca.crt'', ktp_Path = ''CAs/public.crt''\<rparr>]
           else
             [\<lparr>ktp_Key = ''public.crt'', ktp_Path = ''public.crt''\<rparr>,
              \<lparr>ktp_Key = ''private.key'', ktp_Path = ''private.key''\<rparr>,
              \<lparr>ktp_Key = ''public.crt'', ktp_Path = ''CAs/public.crt''\<rparr>])"
        and vols: "Volumes (podSpec ss) = getVolumesForContainer mi @
          [\<lparr>vol_Name = MinIOTLSSecretName api mi,
            vol_VolumeSource =
              \<lparr>EmptyDir = None,
               Projected = Some
                 \<lparr>Sources =
                    \<lparr>vp_Secret = Some
                       \<lparr>sp_LocalObjectReference = \<lparr>lor_Name = lcr_Name e\<rparr>, sp_Items = items\<rparr>\<rparr> #
                    (if HasKESEnabled api mi then
                       [\<lparr>vp_Secret = Some
                           \<lparr>sp_LocalObjectReference =
                              \<lparr>lor_Name = MinIOClientTLSSecretName api mi\<rparr>,
                            sp_Items =
                              [\<lparr>ktp_Key = ''public.crt'', ktp_Path = ''client.crt''\<rparr>,
                               \<lparr>ktp_Key = ''private.key'', ktp_Path = ''client.key''\<rparr>]\<rparr>\<rparr>,
                        \<lparr>vp_Secret = Some
                           \<lparr>sp_LocalObjectReference = \<lparr>lor_Name = KESTLSSecretName api mi\<rparr>,
                            sp_Items =
                              [\<lparr>ktp_Key = ''public.crt'', ktp_Path = ''CAs/server.crt''\<rparr>]\<rparr>\<rparr>]
                     else [])\<rparr>\<rparr>\<rparr>]"
      by blast
    have paths: "map ktp_Path items = [''public.crt'', ''private.key'', ''CAs/public.crt'']"
      by (simp add: items)
    from ss vols e False paths show ?thesis
      by (intro exI [of _ ss] exI [of _ "lcr_Name e"] exI [of _ items]) simp
  qed
qed

theorem NewForMinIO_tls_sources_witness:
  "wellformed kes_api external_mi \<and> RequiresExternalCertSetup kes_api external_mi \<and>
   HasKESEnabled kes_api external_mi \<and>
   map_sum id
     (\<lambda>ss. map (\<lambda>v. (vol_Name v,
                     map_option (map (map_option (lor_Name \<circ> sp_LocalObjectReference) \<circ> vp_Secret)
                                 \<circ> Sources)
                       (Projected (vol_VolumeSource v))))
              (Volumes (podSpec ss)))
     (NewForMinIO kes_api external_mi ''minio-hl-svc'') =
   Inr [(''minio-tls'', Some [Some ''my-certs'', Some ''minio-client-tls'', Some ''minio-kes-tls''])] \<and>
   wellformed sample_api external_mi \<and> RequiresExternalCertSetup sample_api external_mi \<and>
   \<not> HasKESEnabled sample_api external_mi \<and>
   map_sum id
     (\<lambda>ss. map (\<lambda>v. (vol_Name v,
                     map_option (map (map_option (lor_Name \<circ> sp_LocalObjectReference) \<circ> vp_Secret)
                                 \<circ> Sources)
                       (Projected (vol_VolumeSource v))))
              (Volumes (podSpec ss)))
     (NewForMinIO sample_api external_mi ''minio-hl-svc'') =
   Inr [(''minio-tls'', Some [Some ''my-certs''])]"
  using NewForMinIO_tls_sources [of kes_api external_mi "''minio-hl-svc''"]
    NewForMinIO_tls_sources [of sample_api external_mi "''minio-hl-svc''"]
  by (simp add: wellformed_def guarded_def kes_api_def external_mi_def sample_api_def sample_mi_def
      sample_meta_def NewForMinIO_def minioServerContainer_def minioEnvironmentVars_def
      minioMetadata_def getVolumesForContainer_def podSpec_def Let_def)

text \<open>
  Claim C6. For a well-formed instance with a volume claim template and \<open>N\<close> volumes
  for each server, the stateful set has exactly \<open>N\<close> volume claim templates; the
  one of index \<open>i\<close>, from \<open>0\<close> to \<open>N - 1\<close>, is the user's template with its
  name followed by \<open>i\<close> in decimal; the container has \<open>N\<close> mounts, and one more
  when certificates are required, and the names of its first \<open>N\<close> mounts are the
  names of the claim templates, in order.
\<close>

theorem NewForMinIO_claim_names:
  assumes "wellformed api mi"
    and "VolumeClaimTemplate (Spec mi) = Some t"
    and "VolumesPerServer (Spec mi) = int N"
  shows "\<exists>ss c. NewForMinIO api mi sn = Inr ss \<and> Containers (podSpec ss) = [c] \<and>
           VolumeClaimTemplates (ss_Spec ss) =
             map (\<lambda>i. t\<lparr>pvc_ObjectMeta := (pvc_ObjectMeta t)
                          \<lparr>om_Name := om_Name (pvc_ObjectMeta t) @ Itoa (int i)\<rparr>\<rparr>)
                 [0..<N] \<and>
           length (VolumeClaimTemplates (ss_Spec ss)) = N \<and>
           length (c_VolumeMounts c) =
             N + (if RequiresAutoCertSetup api mi \<or> RequiresExternalCertSetup api mi
                  then 1 else 0) \<and>
           map vm_Name (take N (c_VolumeMounts c)) =
             map (\<lambda>p. om_Name (pvc_ObjectMeta p)) (VolumeClaimTemplates (ss_Spec ss))"
proof -
  from assms(1) obtain ss c where ss: "NewForMinIO api mi sn = Inr ss"
    and c: "minioServerContainer api mi sn = Inr c" and cs: "Containers (podSpec ss) = [c]"
    by (rule NewForMinIO_exists)
  have claims: "VolumeClaimTemplates (ss_Spec ss) =
      map (\<lambda>i. t\<lparr>pvc_ObjectMeta := (pvc_ObjectMeta t)
                   \<lparr>om_Name := om_Name (pvc_ObjectMeta t) @ Itoa (int i)\<rparr>\<rparr>)
          [0..<N]"
    using NewForMinIO_claims [OF ss] assms(2,3) by simp
  have mounts: "c_VolumeMounts c = volumeMounts api mi"
    by (rule minioServerContainer_Inr(3) [OF c])
  have len: "length (c_VolumeMounts c) =
      N + (if RequiresAutoCertSetup api mi \<or> RequiresExternalCertSetup api mi then 1 else 0)"
    using assms(3) by (simp add: mounts volumeMounts_eq)
  have names: "map vm_Name (take N (c_VolumeMounts c)) =
      map (\<lambda>p. om_Name (pvc_ObjectMeta p)) (VolumeClaimTemplates (ss_Spec ss))"
    using assms(2,3) by (simp add: mounts volumeMounts_eq claims o_def)
  from ss cs claims len names show ?thesis by (intro exI [of _ ss] exI [of _ c]) simp
qed

theorem NewForMinIO_claim_names_witness:
  "wellformed sample_api sample_mi \<and>
   map_option (\<lambda>p. om_Name (pvc_ObjectMeta p)) (VolumeClaimTemplate (Spec sample_mi)) = Some ''data'' \<and>
   VolumesPerServer (Spec sample_mi) = int 2 \<and>
   map_sum id
     (\<lambda>ss. (map (\<lambda>p. (om_Name (pvc_ObjectMeta p), pvc_Spec p)) (VolumeClaimTemplates (ss_Spec ss)),
            map (\<lambda>c. map vm_Name (c_VolumeMounts c)) (Containers (podSpec ss))))
     (NewForMinIO sample_api sample_mi ''minio-hl-svc'') =
   Inr ([(''data0'', PersistentVolumeClaimSpec_token ''10Gi''),
         (''data1'', PersistentVolumeClaimSpec_token ''10Gi'')],
        [[''data0'', ''data1'']])"
  using NewForMinIO_claim_names [of sample_api sample_mi _ 2 "''minio-hl-svc''"]
  by (simp add: wellformed_def guarded_def sample_api_def sample_mi_def sample_meta_def
      NewForMinIO_def minioServerContainer_def minioEnvironmentVars_def minioMetadata_def
      getVolumesForContainer_def volumeMounts_eq claims_loop_eq podSpec_def Let_def
      Itoa_def utoa.simps digit_def upt_0_2)

text \<open>
  Claim C7. For an instance with a zone (and a guarded credentials secret, so that the
  container is built): when the first zone asks for exactly one server, the arguments
  are \<^verbatim>\<open>server\<close> and the mount path of the package; otherwise they are
  \<^verbatim>\<open>server\<close> followed by one argument for each host of \<^verbatim>\<open>MinIOHosts\<close>, in
  order, each made of the scheme, \<^verbatim>\<open>://\<close>, the host and the volume path. The
  host is part of the format string of \<^verbatim>\<open>fmt.Sprintf\<close>: every argument starts
  with the scheme and \<^verbatim>\<open>://\<close> and goes on with the host formatted with the
  volume path as operand, which for a host without a percent sign (any DNS name) is
  the host followed by the volume path.
\<close>

theorem minioServerContainer_args:
  assumes "Zones (Spec mi) \<noteq> []"
    and "HasCredsSecret api mi \<longrightarrow> CredsSecret (Spec mi) \<noteq> None"
  shows "\<exists>c. minioServerContainer api mi sn = Inr c \<and>
           (zone_Servers (hd (Zones (Spec mi))) = 1 \<longrightarrow>
              c_Args c = [''server'', MinIOVolumeMountPath api]) \<and>
           (zone_Servers (hd (Zones (Spec mi))) \<noteq> 1 \<longrightarrow>
              c_Args c = ''server'' #
                map (\<lambda>h. Scheme api @ ''://'' @
                          Sprintf (fmt_other api) (h @ ''%s'') [VolumePath api mi])
                    (MinIOHosts api mi)) \<and>
           (zone_Servers (hd (Zones (Spec mi))) \<noteq> 1 \<and>
            (\<forall>h \<in> set (MinIOHosts api mi). CHR ''%'' \<notin> set h) \<longrightarrow>
              c_Args c = ''server'' #
                map (\<lambda>h. Scheme api @ ''://'' @ h @ VolumePath api mi) (MinIOHosts api mi))"
proof -
  from assms obtain c where c: "minioServerContainer api mi sn = Inr c"
    using minioServerContainer_exists by blast
  have args: "c_Args c =
      (if zone_Servers (hd (Zones (Spec mi))) = 1 then [''server'', MinIOVolumeMountPath api]
       else ''server'' # map (\<lambda>h. Sprintf (fmt_other api) (''%s://'' @ h @ ''%s'')
                                    [Scheme api, VolumePath api mi]) (MinIOHosts api mi))"
    by (rule minioServerContainer_Inr(11) [OF c])
  have plain: "map (\<lambda>h. Sprintf (fmt_other api) (''%s://'' @ h @ ''%s'')
                     [Scheme api, VolumePath api mi]) (MinIOHosts api mi) =
               map (\<lambda>h. Scheme api @ ''://'' @ h @ VolumePath api mi) (MinIOHosts api mi)"
    if "\<forall>h \<in> set (MinIOHosts api mi). CHR ''%'' \<notin> set h"
    using that by (intro map_cong refl Sprintf_url_plain) blast
  have general: "map (\<lambda>h. Sprintf (fmt_other api) (''%s://'' @ h @ ''%s'')
                     [Scheme api, VolumePath api mi]) (MinIOHosts api mi) =
               map (\<lambda>h. Scheme api @ ''://'' @
                          Sprintf (fmt_other api) (h @ ''%s'') [VolumePath api mi])
                   (MinIOHosts api mi)"
    by (intro map_cong refl Sprintf_url)
  from c args plain general show ?thesis by (intro exI [of _ c]) simp
qed

theorem minioServerContainer_args_witness:
  "(Zones (Spec standalone_mi) \<noteq> [] \<and> CredsSecret (Spec standalone_mi) \<noteq> None \<and>
    zone_Servers (hd (Zones (Spec standalone_mi))) = 1 \<and>
    map_sum id c_Args (minioServerContainer sample_api standalone_mi ''minio-hl-svc'') =
      Inr [''server'', ''/export'']) \<and>
   (Zones (Spec sample_mi) \<noteq> [] \<and> CredsSecret (Spec sample_mi) \<noteq> None \<and>
    zone_Servers (hd (Zones (Spec sample_mi))) = 4 \<and>
    MinIOHosts sample_api sample_mi = [''minio-zone-0.default.svc''] \<and>
    map_sum id c_Args (minioServerContainer sample_api sample_mi ''minio-hl-svc'') =
      Inr [''server'', ''http://minio-zone-0.default.svc/export''])"
  using minioServerContainer_args [of standalone_mi sample_api "''minio-hl-svc''"]
    minioServerContainer_args [of sample_mi sample_api "''minio-hl-svc''"]
  by (simp add: standalone_mi_def sample_api_def sample_mi_def minioServerContainer_def
      minioEnvironmentVars_def Let_def)

text \<open>
  Claim C8. The environment list of the container is, in this order: the entries that
  the user declared, in their order; then, exactly when the instance has a credentials
  secret, two entries that refer to the keys \<^verbatim>\<open>accesskey\<close> and \<^verbatim>\<open>secretkey\<close> of
  that secret and carry no literal value; then, exactly when the key encryption
  service is enabled, four literal entries for its endpoint and three certificate
  files and one literal entry for the key name. The list is returned whenever the
  accessor for the credentials secret guards the pointer it stands for, and it is the
  list that the container carries.
\<close>

theorem minioEnvironmentVars_order:
  assumes "HasCredsSecret api mi \<longrightarrow> CredsSecret (Spec mi) \<noteq> None"
  shows "minioEnvironmentVars api mi =
     Inr (Env (Spec mi) @
          (if HasCredsSecret api mi then
             (case CredsSecret (Spec mi) of
                None \<Rightarrow> []
              | Some creds \<Rightarrow>
                  [\<lparr>ev_Name = ''MINIO_ACCESS_KEY'', ev_Value = '''',
                    ev_ValueFrom = Some
                      \<lparr>FieldRef = None, ResourceFieldRef = None, ConfigMapKeyRef = None,
                       SecretKeyRef = Some
                         \<lparr>sks_LocalObjectReference = \<lparr>lor_Name = lor_Name creds\<rparr>,
                          sks_Key = ''accesskey'', sks_Optional = None\<rparr>\<rparr>\<rparr>,
                   \<lparr>ev_Name = ''MINIO_SECRET_KEY'', ev_Value = '''',
                    ev_ValueFrom = Some
                      \<lparr>FieldRef = None, ResourceFieldRef = None, ConfigMapKeyRef = None,
                       SecretKeyRef = Some
                         \<lparr>sks_LocalObjectReference = \<lparr>lor_Name = lor_Name creds\<rparr>,
                          sks_Key = ''secretkey'', sks_Optional = None\<rparr>\<rparr>\<rparr>])
           else []) @
          (if HasKESEnabled api mi then
             [\<lparr>ev_Name = ''MINIO_KMS_KES_ENDPOINT'',
               ev_Value = ''https://'' @ JoinHostPort (KESServiceHost api mi) (Itoa (KESPort api)),
               ev_ValueFrom = None\<rparr>,
              \<lparr>ev_Name = ''MINIO_KMS_KES_CERT_FILE'',
               ev_Value = ''/root/.minio/certs/client.crt'', ev_ValueFrom = None\<rparr>,
              \<lparr>ev_Name = ''MINIO_KMS_KES_KEY_FILE'',
               ev_Value = ''/root/.minio/certs/client.key'', ev_ValueFrom = None\<rparr>,
              \<lparr>ev_Name = ''MINIO_KMS_KES_CA_PATH'',
               ev_Value = ''/root/.minio/certs/CAs/server.crt'', ev_ValueFrom = None\<rparr>,
              \<lparr>ev_Name = ''MINIO_KMS_KES_KEY_NAME'',
               ev_Value = KESMinIOKey api, ev_ValueFrom = None\<rparr>]
           else [])) \<and>
     (\<forall>c. minioServerContainer api mi sn = Inr c \<longrightarrow> minioEnvironmentVars api mi = Inr (c_Env c))"
proof (cases "CredsSecret (Spec mi)")
  case None
  with assms have "\<not> HasCredsSecret api mi" by simp
  then show ?thesis
    using minioEnvironmentVars_eq [of api mi undefined] minioServerContainer_Inr(2) [of api mi sn]
    by simp
next
  case (Some creds)
  then show ?thesis
    using minioEnvironmentVars_eq [of api mi creds] minioServerContainer_Inr(2) [of api mi sn]
    by simp
qed

theorem minioEnvironmentVars_order_witness:
  "(HasCredsSecret kes_api sample_mi \<and> CredsSecret (Spec sample_mi) \<noteq> None) \<and>
   minioEnvironmentVars kes_api sample_mi =
     Inr [\<lparr>ev_Name = ''MINIO_BROWSER'', ev_Value = ''on'', ev_ValueFrom = None\<rparr>,
          \<lparr>ev_Name = ''MINIO_ACCESS_KEY'', ev_Value = '''',
           ev_ValueFrom = Some
             \<lparr>FieldRef = None, ResourceFieldRef = None, ConfigMapKeyRef = None,
              SecretKeyRef = Some
                \<lparr>sks_LocalObjectReference = \<lparr>lor_Name = ''minio-creds''\<rparr>,
                 sks_Key = ''accesskey'', sks_Optional = None\<rparr>\<rparr>\<rparr>,
          \<lparr>ev_Name = ''MINIO_SECRET_KEY'', ev_Value = '''',
           ev_ValueFrom = Some
             \<lparr>FieldRef = None, ResourceFieldRef = None, ConfigMapKeyRef = None,
              SecretKeyRef = Some
                \<lparr>sks_LocalObjectReference = \<lparr>lor_Name = ''minio-creds''\<rparr>,
                 sks_Key = ''secretkey'', sks_Optional = None\<rparr>\<rparr>\<rparr>,
          \<lparr>ev_Name = ''MINIO_KMS_KES_ENDPOINT'',
           ev_Value = ''https://minio-kes-hl-svc.default.svc.cluster.local:7373'',
           ev_ValueFrom = None\<rparr>,
          \<lparr>ev_Name = ''MINIO_KMS_KES_CERT_FILE'',
           ev_Value = ''/root/.minio/certs/client.crt'', ev_ValueFrom = None\<rparr>,
          \<lparr>ev_Name = ''MINIO_KMS_KES_KEY_FILE'',
           ev_Value = ''/root/.minio/certs/client.key'', ev_ValueFrom = None\<rparr>,
          \<lparr>ev_Name = ''MINIO_KMS_KES_CA_PATH'',
           ev_Value = ''/root/.minio/certs/CAs/server.crt'', ev_ValueFrom = None\<rparr>,
          \<lparr>ev_Name = ''MINIO_KMS_KES_KEY_NAME'',
           ev_Value = ''my-minio-key'', ev_ValueFrom = None\<rparr>]"
  using minioEnvironmentVars_order [of kes_api sample_mi "''minio-hl-svc''"]
  by (simp add: kes_api_def sample_api_def sample_mi_def JoinHostPort_def Itoa_def utoa.simps
      digit_def)

text \<open>
  Claim C9. For an instance whose accessors guard the pointers they stand for,
  \<^verbatim>\<open>NewForMinIO\<close> returns a stateful set if the instance has a zone, and panics
  with an index out of range, at the read of the first zone, if it has none: under
  the guards that read is the only way to fail, and a well-formed instance never
  reaches it.
\<close>

theorem NewForMinIO_total:
  assumes "guarded api mi"
  shows "(Zones (Spec mi) \<noteq> [] \<longrightarrow> (\<exists>ss. NewForMinIO api mi sn = Inr ss)) \<and>
         (Zones (Spec mi) = [] \<longrightarrow> NewForMinIO api mi sn = Inl IndexOutOfRange)"
  using assms NewForMinIO_returns [of api mi sn] NewForMinIO_no_zone [of api mi sn]
  by (simp add: wellformed_def)

theorem NewForMinIO_total_witness:
  "guarded sample_api sample_mi \<and> Zones (Spec sample_mi) \<noteq> [] \<and>
   isl (NewForMinIO sample_api sample_mi ''minio-hl-svc'') = False \<and>
   guarded sample_api zoneless_mi \<and> Zones (Spec zoneless_mi) = [] \<and>
   NewForMinIO sample_api zoneless_mi ''minio-hl-svc'' = Inl IndexOutOfRange"
  using NewForMinIO_total [of sample_api sample_mi "''minio-hl-svc''"]
    NewForMinIO_total [of sample_api zoneless_mi "''minio-hl-svc''"]
  by (auto simp: guarded_def zoneless_mi_def sample_api_def sample_mi_def)



end
